theory Spec2Isabelle
  imports Main
begin

section \<open>Data model of the tracking service\<close>

text \<open>
  The service \<^verbatim>\<open>src/services/trackingService.ts\<close> works on one table, \<^verbatim>\<open>trackings\<close>,
  through SQL statements.  A \<^verbatim>\<open>Date\<close> and an SQL timestamp are modelled as an integer
  count of clock ticks; JavaScript numbers holding ids and counters as \<open>int\<close>.
  An optional field (\<^verbatim>\<open>user_id?: number\<close>) and a nullable column are an \<open>option\<close>.
\<close>

type_synonym timestamp = int

text \<open>\<^verbatim>\<open>interface TrackingData\<close>: the scan handed to \<^verbatim>\<open>createTracking\<close>.\<close>

record TrackingData =
  puesto_id :: int
  lote :: string
  instancia :: int
  version :: int
  fecha_inicio :: timestamp
  user_id :: "int option"

text \<open>\<^verbatim>\<open>interface TrackingRecord\<close>: one row of \<^verbatim>\<open>trackings\<close>.\<close>

record TrackingRecord =
  rec_id :: int
  rec_puesto_id :: int
  rec_lote :: string
  rec_instancia :: int
  rec_version :: int
  rec_fecha_inicio :: timestamp
  rec_fecha_final :: "timestamp option"
  rec_user_id :: "int option"
  rec_closure_reason :: "string option"
  rec_created_at :: timestamp
  rec_updated_at :: timestamp

text \<open>The table, in storage order.\<close>

type_synonym trackings = "TrackingRecord list"

text \<open>
  What the service throws.  \<open>Error m\<close> is JavaScript's \<^verbatim>\<open>new Error(text)\<close>: an object of the
  generic class \<^verbatim>\<open>Error\<close> with no \<^verbatim>\<open>code\<close> property; \<open>m\<close> records which of the two
  message templates of the source was used and the values interpolated into it.
  \<open>DatabaseError c\<close> is an error raised by \<^verbatim>\<open>db.query\<close> with SQLSTATE \<open>c\<close> in its
  \<^verbatim>\<open>code\<close> property (\<^verbatim>\<open>23505\<close> unique violation, \<^verbatim>\<open>23514\<close> check violation,
  \<^verbatim>\<open>22001\<close> value too long for the column).
\<close>

datatype message =
    OpenTrackingExists int string int int timestamp
  | ConstraintViolation

datatype error =
    Error message
  | DatabaseError string

fun error_code :: "error \<Rightarrow> string option" where
  "error_code (Error m) = None"
| "error_code (DatabaseError c) = Some c"

section \<open>The SQL statements\<close>

definition is_open :: "TrackingRecord \<Rightarrow> bool" where
  "is_open r = (rec_fecha_final r = None)"

definition same_window :: "TrackingData \<Rightarrow> TrackingRecord \<Rightarrow> bool" where
  "same_window data r =
     (rec_lote r = lote data \<and> rec_instancia r = instancia data \<and> rec_version r = version data)"

text \<open>
  \<^verbatim>\<open>ORDER BY fecha_inicio DESC LIMIT 1\<close>: a row with the greatest \<^verbatim>\<open>fecha_inicio\<close>, none for
  an empty selection.  SQL leaves the choice among equal start times open; the model takes
  the first such row in storage order.
\<close>

fun latest :: "TrackingRecord list \<Rightarrow> TrackingRecord option" where
  "latest [] = None"
| "latest (r # rs) =
     (case latest rs of
        None \<Rightarrow> Some r
      | Some q \<Rightarrow> if rec_fecha_inicio r < rec_fecha_inicio q then Some q else Some r)"

text \<open>The \<^verbatim>\<open>SELECT\<close> of \<^verbatim>\<open>closeTrackingInOtherPuesto\<close>.\<close>

definition select_open_in_other_puesto :: "TrackingData \<Rightarrow> trackings \<Rightarrow> TrackingRecord option" where
  "select_open_in_other_puesto data tbl =
     latest (filter (\<lambda>r. rec_lote r = lote data \<and> rec_instancia r = instancia data
                          \<and> rec_version r = version data \<and> rec_puesto_id r \<noteq> puesto_id data
                          \<and> rec_fecha_final r = None) tbl)"

text \<open>\<^verbatim>\<open>findOpenTrackingInPuesto\<close>.\<close>

definition findOpenTrackingInPuesto :: "int \<Rightarrow> trackings \<Rightarrow> TrackingRecord option" where
  "findOpenTrackingInPuesto puestoId tbl =
     latest (filter (\<lambda>r. rec_puesto_id r = puestoId \<and> rec_fecha_final r = None) tbl)"

text \<open>\<^verbatim>\<open>getTracking\<close>: \<^verbatim>\<open>SELECT * FROM trackings WHERE id = $1\<close>, first row or null.\<close>

definition getTracking :: "int \<Rightarrow> trackings \<Rightarrow> TrackingRecord option" where
  "getTracking trackingId tbl =
     (case filter (\<lambda>r. rec_id r = trackingId) tbl of [] \<Rightarrow> None | r # rs \<Rightarrow> Some r)"

text \<open>
  The \<^verbatim>\<open>SET\<close> clause of \<^verbatim>\<open>closeTracking\<close>'s \<^verbatim>\<open>UPDATE\<close>; \<open>now\<close> is \<^verbatim>\<open>CURRENT_TIMESTAMP\<close>.
\<close>

definition close_row :: "timestamp \<Rightarrow> timestamp \<Rightarrow> string \<Rightarrow> TrackingRecord \<Rightarrow> TrackingRecord" where
  "close_row now fechaFinal reason r =
     r\<lparr>rec_fecha_final := Some fechaFinal, rec_closure_reason := Some reason, rec_updated_at := now\<rparr>"

text \<open>The rows after the \<^verbatim>\<open>UPDATE\<close>: every row \<^verbatim>\<open>WHERE id = $3\<close> is rewritten.\<close>

definition update_close :: "timestamp \<Rightarrow> int \<Rightarrow> timestamp \<Rightarrow> string \<Rightarrow> trackings \<Rightarrow> trackings" where
  "update_close now trackingId fechaFinal reason tbl =
     map (\<lambda>r. if rec_id r = trackingId then close_row now fechaFinal reason r else r) tbl"

text \<open>
  The column \<^verbatim>\<open>closure_reason VARCHAR(100)\<close> of migration 001, step 6.  A value assigned
  to it is kept when it has at most 100 characters; a longer one is cut to 100 when
  everything beyond is spaces, and otherwise refused with SQLSTATE 22001.  A character is
  one \<open>char\<close> of the model's strings.
\<close>

definition closure_reason_column :: "string \<Rightarrow> error + string" where
  "closure_reason_column s =
     (if length s \<le> 100 then Inr s
      else if drop 100 s = replicate (length s - 100) (CHR '' '') then Inr (take 100 s)
      else Inl (DatabaseError ''22001''))"

text \<open>
  \<^verbatim>\<open>closeTracking(trackingId, fechaFinal, reason = 'MANUAL_CLOSE')\<close>.  The \<^verbatim>\<open>UPDATE\<close> reports no
  error when no row has the id.  Two constraints of migration 001 make the statement fail
  as a whole, leaving the table as it was: the reason is coerced to the column's type
  when the statement is bound to its parameters, before any row is read (22001); and
  \<^verbatim>\<open>chk_valid_date_range\<close>, \<^verbatim>\<open>CHECK (fecha_final IS NULL OR fecha_inicio <= fecha_final)\<close>,
  refuses a row that would end before it starts (23514).  The result pairs the outcome
  with the table afterwards.
\<close>

definition closeTracking ::
  "timestamp \<Rightarrow> int \<Rightarrow> timestamp \<Rightarrow> string option \<Rightarrow> trackings \<Rightarrow> (error + unit) \<times> trackings" where
  "closeTracking now trackingId fechaFinal reason tbl =
     (case closure_reason_column (case reason of None \<Rightarrow> ''MANUAL_CLOSE'' | Some s \<Rightarrow> s) of
        Inl e \<Rightarrow> (Inl e, tbl)
      | Inr stored \<Rightarrow>
          if \<exists>r \<in> set tbl. rec_id r = trackingId \<and> fechaFinal < rec_fecha_inicio r
          then (Inl (DatabaseError ''23514''), tbl)
          else (Inr (), update_close now trackingId fechaFinal stored tbl))"

text \<open>\<^verbatim>\<open>closeTrackingInOtherPuesto\<close>: the chain step.\<close>

definition closeTrackingInOtherPuesto ::
  "timestamp \<Rightarrow> TrackingData \<Rightarrow> trackings \<Rightarrow> (error + unit) \<times> trackings" where
  "closeTrackingInOtherPuesto now data tbl =
     (case select_open_in_other_puesto data tbl of
        None \<Rightarrow> (Inr (), tbl)
      | Some previousTracking \<Rightarrow>
          closeTracking now (rec_id previousTracking) (fecha_inicio data)
            (Some ''CHAIN_TRANSITION'') tbl)"

text \<open>
  Modelled from the spec: the DDL of \<^verbatim>\<open>trackings\<close> is not part of the sources; the column
  \<^verbatim>\<open>id\<close> is "integer, system-assigned, unique".  The model assigns one more than the
  greatest id in the table (1 in an empty table).
\<close>

definition next_id :: "trackings \<Rightarrow> int" where
  "next_id tbl = fold max (map rec_id tbl) 0 + 1"

text \<open>JavaScript's \<^verbatim>\<open>data.user_id || null\<close>: \<^verbatim>\<open>undefined\<close> and \<^verbatim>\<open>0\<close> are falsy.\<close>

definition user_id_or_null :: "int option \<Rightarrow> int option" where
  "user_id_or_null u = (case u of None \<Rightarrow> None | Some n \<Rightarrow> if n = 0 then None else Some n)"

text \<open>The row written by the \<^verbatim>\<open>INSERT\<close> of step 3 (\<^verbatim>\<open>RETURNING *\<close>).\<close>

definition new_row :: "timestamp \<Rightarrow> TrackingData \<Rightarrow> trackings \<Rightarrow> TrackingRecord" where
  "new_row now data tbl =
     \<lparr>rec_id = next_id tbl, rec_puesto_id = puesto_id data, rec_lote = lote data,
      rec_instancia = instancia data, rec_version = version data,
      rec_fecha_inicio = fecha_inicio data, rec_fecha_final = None,
      rec_user_id = user_id_or_null (user_id data), rec_closure_reason = None,
      rec_created_at = now, rec_updated_at = now\<rparr>"

text \<open>
  The \<^verbatim>\<open>INSERT\<close>, under the unique index \<^verbatim>\<open>idx_unique_open_tracking\<close> of migration 001
  (\<^verbatim>\<open>(puesto_id, lote, instancia, version) WHERE fecha_final IS NULL\<close>): with an open row
  of the same workstation and window in the table it raises SQLSTATE 23505.
\<close>

definition insert_tracking ::
  "timestamp \<Rightarrow> TrackingData \<Rightarrow> trackings \<Rightarrow> (error + TrackingRecord) \<times> trackings" where
  "insert_tracking now data tbl =
     (if \<exists>r \<in> set tbl. rec_puesto_id r = puesto_id data \<and> same_window data r
                        \<and> rec_fecha_final r = None
      then (Inl (DatabaseError ''23505''), tbl)
      else (Inr (new_row now data tbl), tbl @ [new_row now data tbl]))"

section \<open>createTracking\<close>

text \<open>
  Steps 1 and 2 of the \<^verbatim>\<open>try\<close> block: the chain close, then the look at the target
  workstation, with the rescan close or the rejection.  No transaction surrounds the
  statements, so what a step has written stays written when a later step throws.
\<close>

definition steps_before_insert ::
  "timestamp \<Rightarrow> TrackingData \<Rightarrow> trackings \<Rightarrow> (error + unit) \<times> trackings" where
  "steps_before_insert now data tbl =
     (case closeTrackingInOtherPuesto now data tbl of
        (Inl e, tbl1) \<Rightarrow> (Inl e, tbl1)
      | (Inr u, tbl1) \<Rightarrow>
          (case findOpenTrackingInPuesto (puesto_id data) tbl1 of
             None \<Rightarrow> (Inr (), tbl1)
           | Some openInSamePuesto \<Rightarrow>
               if rec_lote openInSamePuesto = lote data
                  \<and> rec_instancia openInSamePuesto = instancia data
                  \<and> rec_version openInSamePuesto = version data
               then closeTracking now (rec_id openInSamePuesto) (fecha_inicio data)
                      (Some ''RESCANNED_SAME_WINDOW'') tbl1
               else (Inl (Error (OpenTrackingExists (puesto_id data)
                        (rec_lote openInSamePuesto) (rec_instancia openInSamePuesto)
                        (rec_version openInSamePuesto) (rec_fecha_inicio openInSamePuesto))),
                     tbl1)))"

text \<open>
  The \<^verbatim>\<open>catch\<close> block: a unique violation is rethrown as a fresh \<^verbatim>\<open>new Error(...)\<close>,
  anything else as it is.
\<close>

definition on_catch :: "error \<Rightarrow> error" where
  "on_catch e = (if error_code e = Some ''23505'' then Error ConstraintViolation else e)"

text \<open>
  \<^verbatim>\<open>createTracking\<close> with other writers: \<open>others\<close> is what concurrent clients do to the
  table between the reads of steps 1 and 2 and the \<^verbatim>\<open>INSERT\<close> of step 3.  The one \<open>now\<close>
  stands for \<^verbatim>\<open>CURRENT_TIMESTAMP\<close> in every statement of the call; it reaches the audit
  columns \<^verbatim>\<open>created_at\<close> and \<^verbatim>\<open>updated_at\<close> only.
\<close>

definition createTracking_racing ::
  "(trackings \<Rightarrow> trackings) \<Rightarrow> timestamp \<Rightarrow> TrackingData \<Rightarrow> trackings
     \<Rightarrow> (error + TrackingRecord) \<times> trackings" where
  "createTracking_racing others now data tbl =
     (case (case steps_before_insert now data tbl of
              (Inl e, tbl2) \<Rightarrow> (Inl e, tbl2)
            | (Inr u, tbl2) \<Rightarrow> insert_tracking now data (others tbl2)) of
        (Inl e, tbl3) \<Rightarrow> (Inl (on_catch e), tbl3)
      | (Inr tracking, tbl3) \<Rightarrow> (Inr tracking, tbl3))"

text \<open>\<^verbatim>\<open>createTracking\<close> running alone.\<close>

definition createTracking ::
  "timestamp \<Rightarrow> TrackingData \<Rightarrow> trackings \<Rightarrow> (error + TrackingRecord) \<times> trackings" where
  "createTracking now data tbl = createTracking_racing (\<lambda>t. t) now data tbl"

section \<open>findOverlaps\<close>

text \<open>\<^verbatim>\<open>COALESCE(fecha_final, CURRENT_TIMESTAMP)\<close> of the CTE \<^verbatim>\<open>tracking_periods\<close>.\<close>

definition period_end :: "timestamp \<Rightarrow> TrackingRecord \<Rightarrow> timestamp" where
  "period_end now r = (case rec_fecha_final r of None \<Rightarrow> now | Some e \<Rightarrow> e)"

text \<open>
  One row of the result.  \<^verbatim>\<open>overlap_seconds\<close> is
  \<^verbatim>\<open>LEAST(t1.fecha_final, t2.fecha_final) - GREATEST(t1.fecha_inicio, t2.fecha_inicio)\<close>,
  counted here in the ticks of \<open>timestamp\<close>.
\<close>

record Overlap =
  tracking1_id :: int
  ov_puesto_id :: int
  lote1 :: string
  instancia1 :: int
  version1 :: int
  inicio1 :: timestamp
  final1 :: timestamp
  tracking2_id :: int
  lote2 :: string
  instancia2 :: int
  version2 :: int
  inicio2 :: timestamp
  final2 :: timestamp
  overlap_seconds :: int

definition overlap_row :: "timestamp \<Rightarrow> TrackingRecord \<Rightarrow> TrackingRecord \<Rightarrow> Overlap" where
  "overlap_row now t1 t2 =
     \<lparr>tracking1_id = rec_id t1, ov_puesto_id = rec_puesto_id t1, lote1 = rec_lote t1,
      instancia1 = rec_instancia t1, version1 = rec_version t1,
      inicio1 = rec_fecha_inicio t1, final1 = period_end now t1,
      tracking2_id = rec_id t2, lote2 = rec_lote t2, instancia2 = rec_instancia t2,
      version2 = rec_version t2, inicio2 = rec_fecha_inicio t2, final2 = period_end now t2,
      overlap_seconds = min (period_end now t1) (period_end now t2)
                        - max (rec_fecha_inicio t1) (rec_fecha_inicio t2)\<rparr>"

text \<open>The \<^verbatim>\<open>ON\<close> and \<^verbatim>\<open>WHERE\<close> conditions of the self join.\<close>

definition overlap_condition :: "timestamp \<Rightarrow> TrackingRecord \<Rightarrow> TrackingRecord \<Rightarrow> bool" where
  "overlap_condition now t1 t2 =
     (rec_puesto_id t1 = rec_puesto_id t2 \<and> rec_id t1 < rec_id t2
      \<and> rec_fecha_inicio t1 < period_end now t2 \<and> period_end now t1 > rec_fecha_inicio t2)"

text \<open>
  \<^verbatim>\<open>findOverlaps\<close>; \<^verbatim>\<open>ORDER BY overlap_seconds DESC\<close> is a stable sort on the negated
  duration.  (The stand-alone \<^verbatim>\<open>detect_overlaps.sql\<close> joins and filters in the same way; it
  clamps the duration at 0 and orders by workstation first.)
\<close>

definition findOverlaps :: "timestamp \<Rightarrow> trackings \<Rightarrow> Overlap list" where
  "findOverlaps now tbl =
     sort_key (\<lambda>ov. - overlap_seconds ov)
       (concat (map (\<lambda>t1. map (overlap_row now t1) (filter (overlap_condition now t1) tbl)) tbl))"

section \<open>The specification's vocabulary\<close>

text \<open>The primary key: no two rows share an id.\<close>

definition unique_ids :: "trackings \<Rightarrow> bool" where
  "unique_ids tbl = distinct (map rec_id tbl)"


text \<open>
  The scanned window is open at the scan's workstation and at another one as well.
\<close>

definition open_here_and_elsewhere :: "TrackingData \<Rightarrow> trackings \<Rightarrow> bool" where
  "open_here_and_elsewhere data tbl =
     (\<exists>r \<in> set tbl. \<exists>q \<in> set tbl.
        is_open r \<and> same_window data r \<and> rec_puesto_id r = puesto_id data
        \<and> is_open q \<and> same_window data q \<and> rec_puesto_id q \<noteq> puesto_id data)"

text \<open>
  The prior intervals a call has closed: open in the table before, closed under the same
  id in the table after.
\<close>

definition closed_by_call :: "trackings \<Rightarrow> trackings \<Rightarrow> TrackingRecord list" where
  "closed_by_call tbl tbl' =
     filter (\<lambda>r. is_open r \<and>
                 (case getTracking (rec_id r) tbl' of None \<Rightarrow> False | Some q \<Rightarrow> \<not> is_open q)) tbl"

text \<open>
  The half-open range \<open>[start_time, end_time-or-now)\<close> of an interval, as the set of its
  instants, and what it is for two of them to intersect.
\<close>

definition range_of :: "timestamp \<Rightarrow> TrackingRecord \<Rightarrow> timestamp set" where
  "range_of now r = {rec_fecha_inicio r ..< period_end now r}"

definition ranges_intersect :: "timestamp \<Rightarrow> TrackingRecord \<Rightarrow> TrackingRecord \<Rightarrow> bool" where
  "ranges_intersect now r q = (range_of now r \<inter> range_of now q \<noteq> {})"

section \<open>Sample data\<close>

text \<open>A scan and a stored interval, with the fields the examples vary.\<close>

definition scan :: "string \<Rightarrow> int \<Rightarrow> timestamp \<Rightarrow> TrackingData" where
  "scan l p t = \<lparr>puesto_id = p, lote = l, instancia = 1, version = 1, fecha_inicio = t,
                 user_id = None\<rparr>"

definition interval :: "int \<Rightarrow> string \<Rightarrow> int \<Rightarrow> timestamp \<Rightarrow> timestamp option \<Rightarrow> string option
                          \<Rightarrow> TrackingRecord" where
  "interval i l p s e c = \<lparr>rec_id = i, rec_puesto_id = p, rec_lote = l, rec_instancia = 1,
      rec_version = 1, rec_fecha_inicio = s, rec_fecha_final = e, rec_user_id = None,
      rec_closure_reason = c, rec_created_at = s, rec_updated_at = s\<rparr>"

text \<open>
  The chain of the integration test: window \<^verbatim>\<open>(TEST001, 1, 1)\<close> scanned at workstation 1
  at 10:00, at workstation 2 at 10:30 and at workstation 3 at 11:00 (seconds of the day),
  starting from an empty table.
\<close>

definition chain_scenario :: trackings where
  "chain_scenario =
     snd (createTracking 39600 (scan ''TEST001'' 3 39600)
       (snd (createTracking 37800 (scan ''TEST001'' 2 37800)
         (snd (createTracking 36000 (scan ''TEST001'' 1 36000) [])))))"

section \<open>Facts about the statements\<close>

lemma latest_None_iff: "latest rs = None \<longleftrightarrow> rs = []"
  by (induction rs) (auto split: option.splits)

lemma latest_mem: "latest rs = Some r \<Longrightarrow> r \<in> set rs"
  by (induction rs arbitrary: r) (auto split: option.splits if_splits)


lemma getTracking_Nil [simp]: "getTracking i [] = None"
  by (simp add: getTracking_def)

lemma getTracking_Cons [simp]:
  "getTracking i (r # rs) = (if rec_id r = i then Some r else getTracking i rs)"
  by (simp add: getTracking_def)

lemma getTracking_None_iff: "getTracking i tbl = None \<longleftrightarrow> (\<forall>r \<in> set tbl. rec_id r \<noteq> i)"
  by (induction tbl) auto

lemma getTracking_SomeD: "getTracking i tbl = Some r \<Longrightarrow> r \<in> set tbl \<and> rec_id r = i"
  by (induction tbl) (auto split: if_splits)

lemma getTracking_unique: "unique_ids tbl \<Longrightarrow> r \<in> set tbl \<Longrightarrow> getTracking (rec_id r) tbl = Some r"
  by (induction tbl) (auto simp: unique_ids_def)

lemma getTracking_append_new:
  "\<forall>r \<in> set tbl. rec_id r \<noteq> rec_id x \<Longrightarrow> getTracking (rec_id x) (tbl @ [x]) = Some x"
  by (induction tbl) auto

lemma getTracking_append_old:
  "rec_id x \<noteq> i \<Longrightarrow> getTracking i (tbl @ [x]) = getTracking i tbl"
  by (induction tbl) auto

lemma fold_max_ge: "(a::int) \<le> fold max xs a"
proof (induction xs arbitrary: a)
  case Nil then show ?case by simp
next
  case (Cons y ys)
  have "a \<le> max y a" by simp
  also have "\<dots> \<le> fold max ys (max y a)" by (rule Cons.IH)
  finally show ?case by simp
qed

lemma fold_max_mem: "x \<in> set xs \<Longrightarrow> (x::int) \<le> fold max xs a"
proof (induction xs arbitrary: a)
  case Nil then show ?case by simp
next
  case (Cons y ys)
  then show ?case using fold_max_ge[of "max y a" ys] by auto
qed

lemma next_id_fresh: "r \<in> set tbl \<Longrightarrow> rec_id r < next_id tbl"
  using fold_max_mem[of "rec_id r" "map rec_id tbl" 0] by (simp add: next_id_def)

lemma close_row_simps [simp]:
  "rec_id (close_row now t c r) = rec_id r"
  "rec_puesto_id (close_row now t c r) = rec_puesto_id r"
  "rec_lote (close_row now t c r) = rec_lote r"
  "rec_instancia (close_row now t c r) = rec_instancia r"
  "rec_version (close_row now t c r) = rec_version r"
  "rec_fecha_inicio (close_row now t c r) = rec_fecha_inicio r"
  "rec_user_id (close_row now t c r) = rec_user_id r"
  "rec_created_at (close_row now t c r) = rec_created_at r"
  "rec_fecha_final (close_row now t c r) = Some t"
  "rec_closure_reason (close_row now t c r) = Some c"
  "rec_updated_at (close_row now t c r) = now"
  "\<not> is_open (close_row now t c r)"
  by (simp_all add: close_row_def is_open_def)

lemma map_rec_id_update_close [simp]:
  "map rec_id (update_close now i t c tbl) = map rec_id tbl"
  by (simp add: update_close_def)

lemma unique_ids_update_close [simp]:
  "unique_ids (update_close now i t c tbl) = unique_ids tbl"
  by (simp add: unique_ids_def)

lemma next_id_update_close [simp]: "next_id (update_close now i t c tbl) = next_id tbl"
  by (simp add: next_id_def)

lemma update_close_absent:
  "\<forall>r \<in> set tbl. rec_id r \<noteq> i \<Longrightarrow> update_close now i t c tbl = tbl"
  by (simp add: update_close_def map_idI)

lemma getTracking_update_close:
  "getTracking j (update_close now i t c tbl) =
     (if j = i then map_option (close_row now t c) (getTracking j tbl) else getTracking j tbl)"
  by (induction tbl) (auto simp: update_close_def)

lemma set_update_close:
  "set (update_close now i t c tbl) =
     {r \<in> set tbl. rec_id r \<noteq> i} \<union> close_row now t c ` {r \<in> set tbl. rec_id r = i}"
  by (auto simp: update_close_def)

lemma open_update_close:
  "q \<in> set (update_close now i t c tbl) \<Longrightarrow> is_open q \<Longrightarrow> q \<in> set tbl \<and> rec_id q \<noteq> i"
  by (auto simp: set_update_close)

lemmas service_defs =
  createTracking_def createTracking_racing_def steps_before_insert_def
  closeTrackingInOtherPuesto_def select_open_in_other_puesto_def findOpenTrackingInPuesto_def
  closeTracking_def closure_reason_column_def update_close_def close_row_def insert_tracking_def
  new_row_def next_id_def
  user_id_or_null_def same_window_def on_catch_def is_open_def scan_def interval_def
  unique_ids_def

lemma unique_ids_same:
  "unique_ids tbl \<Longrightarrow> r \<in> set tbl \<Longrightarrow> q \<in> set tbl \<Longrightarrow> rec_id r = rec_id q \<Longrightarrow> r = q"
  by (auto simp: unique_ids_def dest: inj_on_eq_iff[OF distinct_map[THEN iffD1, THEN conjunct2]])

lemma closure_reason_column_fits [simp]:
  "length s \<le> 100 \<Longrightarrow> closure_reason_column s = Inr s"
  by (simp add: closure_reason_column_def)

lemma closeTracking_cases:
  obtains (too_long) "closeTracking now i t reason tbl = (Inl (DatabaseError ''22001''), tbl)"
  | (late) "closeTracking now i t reason tbl = (Inl (DatabaseError ''23514''), tbl)"
  | (closed) c where "closeTracking now i t reason tbl = (Inr (), update_close now i t c tbl)"
proof (cases "closure_reason_column (case reason of None \<Rightarrow> ''MANUAL_CLOSE'' | Some s \<Rightarrow> s)")
  case (Inl e)
  then have "e = DatabaseError ''22001''"
    by (simp add: closure_reason_column_def split: if_splits)
  with Inl show ?thesis by (intro too_long) (simp add: closeTracking_def)
next
  case (Inr c)
  show ?thesis
  proof (cases "\<exists>r \<in> set tbl. rec_id r = i \<and> t < rec_fecha_inicio r")
    case True
    with Inr show ?thesis by (intro late) (simp add: closeTracking_def)
  next
    case False
    with Inr show ?thesis by (intro closed[of c]) (simp add: closeTracking_def)
  qed
qed

lemma closeTracking_present:
  "unique_ids tbl \<Longrightarrow> a \<in> set tbl \<Longrightarrow>
   closure_reason_column (case reason of None \<Rightarrow> ''MANUAL_CLOSE'' | Some s \<Rightarrow> s) = Inr c \<Longrightarrow>
   closeTracking now (rec_id a) t reason tbl =
     (if t < rec_fecha_inicio a then (Inl (DatabaseError ''23514''), tbl)
      else (Inr (), update_close now (rec_id a) t c tbl))"
  by (auto simp: closeTracking_def dest: unique_ids_same)

lemma closeTracking_absent:
  "getTracking i tbl = None \<Longrightarrow>
   closure_reason_column (case reason of None \<Rightarrow> ''MANUAL_CLOSE'' | Some s \<Rightarrow> s) = Inr c \<Longrightarrow>
   closeTracking now i t reason tbl = (Inr (), tbl)"
  by (auto simp: closeTracking_def getTracking_None_iff update_close_absent)

lemma closeTracking_too_long:
  "closure_reason_column (case reason of None \<Rightarrow> ''MANUAL_CLOSE'' | Some s \<Rightarrow> s) = Inl e \<Longrightarrow>
   closeTracking now i t reason tbl = (Inl (DatabaseError ''22001''), tbl)"
  by (auto simp: closeTracking_def closure_reason_column_def split: if_splits)

lemma on_catch_simps [simp]:
  "on_catch (Error m) = Error m"
  "on_catch (DatabaseError ''23514'') = DatabaseError ''23514''"
  "on_catch (DatabaseError ''23505'') = Error ConstraintViolation"
  by (simp_all add: on_catch_def)

lemma createTracking_InrD:
  assumes "createTracking now data tbl = (Inr tr, tbl')"
  obtains mid where "steps_before_insert now data tbl = (Inr (), mid)"
    and "tr = new_row now data mid" and "tbl' = mid @ [tr]"
    and "\<forall>r \<in> set mid. rec_puesto_id r = puesto_id data \<and> same_window data r \<longrightarrow> \<not> is_open r"
  using assms
  by (auto simp: createTracking_def createTracking_racing_def insert_tracking_def is_open_def
           split: prod.splits sum.splits if_splits)

lemma new_row_fresh: "r \<in> set mid \<Longrightarrow> rec_id r \<noteq> rec_id (new_row now data mid)"
  using next_id_fresh[of r mid] by (simp add: new_row_def)

lemma createTracking_stored:
  assumes "createTracking now data tbl = (Inr tr, tbl')"
  shows "getTracking (rec_id tr) tbl' = Some tr"
  using assms by (elim createTracking_InrD) (auto intro!: getTracking_append_new dest: new_row_fresh)

section \<open>The stored user id\<close>

text \<open>
  Claim C10.  A successful \<^verbatim>\<open>createTracking\<close> writes \<^verbatim>\<open>data.user_id || null\<close>: a scan whose
  \<open>user_id\<close> is 0 creates an interval whose \<open>user_id\<close> is null, as an absent one does;
  a non-zero \<open>user_id\<close> is stored as it is.  The interval returned is the one stored under
  its id.
\<close>

theorem createTracking_user_id_zero_is_null:
  assumes "createTracking now data tbl = (Inr tracking, tbl')"
  shows "(user_id data = Some 0 \<longrightarrow> rec_user_id tracking = None)
       \<and> (\<forall>n. user_id data = Some n \<and> n \<noteq> 0 \<longrightarrow> rec_user_id tracking = Some n)
       \<and> (user_id data = None \<longrightarrow> rec_user_id tracking = None)
       \<and> getTracking (rec_id tracking) tbl' = Some tracking"
  using assms createTracking_stored[OF assms]
  by (elim createTracking_InrD) (auto simp: new_row_def user_id_or_null_def)

theorem createTracking_user_id_zero_is_null_witness:
  "createTracking 100 ((scan ''A'' 1 50)\<lparr>user_id := Some 0\<rparr>) []
     = (Inr ((interval 1 ''A'' 1 50 None None)\<lparr>rec_created_at := 100, rec_updated_at := 100\<rparr>),
        [(interval 1 ''A'' 1 50 None None)\<lparr>rec_created_at := 100, rec_updated_at := 100\<rparr>])
   \<and> user_id ((scan ''A'' 1 50)\<lparr>user_id := Some 0\<rparr>) = Some 0
   \<and> rec_user_id ((interval 1 ''A'' 1 50 None None)\<lparr>rec_created_at := 100, rec_updated_at := 100\<rparr>) = None"
proof -
  have run: "createTracking 100 ((scan ''A'' 1 50)\<lparr>user_id := Some 0\<rparr>) []
     = (Inr ((interval 1 ''A'' 1 50 None None)\<lparr>rec_created_at := 100, rec_updated_at := 100\<rparr>),
        [(interval 1 ''A'' 1 50 None None)\<lparr>rec_created_at := 100, rec_updated_at := 100\<rparr>])"
    by (simp add: service_defs)
  from createTracking_user_id_zero_is_null[OF run] run show ?thesis
    by (simp add: scan_def)
qed

lemma select_open_in_other_puesto_None_iff:
  "select_open_in_other_puesto data tbl = None \<longleftrightarrow>
     (\<forall>r \<in> set tbl. is_open r \<and> same_window data r \<longrightarrow> rec_puesto_id r = puesto_id data)"
  by (auto simp: select_open_in_other_puesto_def latest_None_iff filter_empty_conv is_open_def
                 same_window_def)

lemma select_open_in_other_puesto_SomeD:
  "select_open_in_other_puesto data tbl = Some a \<Longrightarrow>
     a \<in> set tbl \<and> is_open a \<and> same_window data a \<and> rec_puesto_id a \<noteq> puesto_id data"
  by (auto simp: select_open_in_other_puesto_def is_open_def same_window_def dest!: latest_mem)

lemma findOpenTrackingInPuesto_None_iff:
  "findOpenTrackingInPuesto p tbl = None \<longleftrightarrow> (\<forall>r \<in> set tbl. is_open r \<longrightarrow> rec_puesto_id r \<noteq> p)"
  by (auto simp: findOpenTrackingInPuesto_def latest_None_iff filter_empty_conv is_open_def)

lemma findOpenTrackingInPuesto_SomeD:
  "findOpenTrackingInPuesto p tbl = Some b \<Longrightarrow> b \<in> set tbl \<and> is_open b \<and> rec_puesto_id b = p"
  by (auto simp: findOpenTrackingInPuesto_def is_open_def dest!: latest_mem)

section \<open>Scans that are not validated\<close>




section \<open>closeTracking\<close>

text \<open>
  Claim C8, as amended.  Let the reason (\<^verbatim>\<open>MANUAL_CLOSE\<close> by default) be one the column
  \<^verbatim>\<open>closure_reason VARCHAR(100)\<close> accepts, as every reason of at most 100 characters is.
  Then \<^verbatim>\<open>closeTracking\<close> on an id that no interval has returns without error and leaves the
  store as it was.  On the id of an existing interval it returns without error and sets
  \<open>end_time\<close> and \<open>closure_reason\<close> when the end time is not before the interval's start;
  when it is, the storage check constraint's error 23514 is raised and the store is as it
  was.  With a reason the column refuses, the call fails with the storage error 22001 and
  the store is as it was.
\<close>

theorem closeTracking_outcomes:
  "(length (case reason of None \<Rightarrow> ''MANUAL_CLOSE'' | Some s \<Rightarrow> s) \<le> 100 \<longrightarrow>
      closure_reason_column (case reason of None \<Rightarrow> ''MANUAL_CLOSE'' | Some s \<Rightarrow> s)
        = Inr (case reason of None \<Rightarrow> ''MANUAL_CLOSE'' | Some s \<Rightarrow> s))
   \<and> (closure_reason_column (case reason of None \<Rightarrow> ''MANUAL_CLOSE'' | Some s \<Rightarrow> s) = Inr c
        \<and> getTracking i tbl = None \<longrightarrow>
      closeTracking now i t reason tbl = (Inr (), tbl))
   \<and> (closure_reason_column (case reason of None \<Rightarrow> ''MANUAL_CLOSE'' | Some s \<Rightarrow> s) = Inr c
        \<and> unique_ids tbl \<and> getTracking i tbl = Some r \<and> rec_fecha_inicio r \<le> t \<longrightarrow>
        fst (closeTracking now i t reason tbl) = Inr ()
        \<and> getTracking i (snd (closeTracking now i t reason tbl))
            = Some (r\<lparr>rec_fecha_final := Some t, rec_closure_reason := Some c,
                      rec_updated_at := now\<rparr>))
   \<and> (closure_reason_column (case reason of None \<Rightarrow> ''MANUAL_CLOSE'' | Some s \<Rightarrow> s) = Inr c
        \<and> unique_ids tbl \<and> getTracking i tbl = Some r \<and> t < rec_fecha_inicio r \<longrightarrow>
        closeTracking now i t reason tbl = (Inl (DatabaseError ''23514''), tbl))
   \<and> (closure_reason_column (case reason of None \<Rightarrow> ''MANUAL_CLOSE'' | Some s \<Rightarrow> s) = Inl e \<longrightarrow>
        closeTracking now i t reason tbl = (Inl (DatabaseError ''22001''), tbl))"
proof (intro conjI impI)
  assume "length (case reason of None \<Rightarrow> ''MANUAL_CLOSE'' | Some s \<Rightarrow> s) \<le> 100"
  then show "closure_reason_column (case reason of None \<Rightarrow> ''MANUAL_CLOSE'' | Some s \<Rightarrow> s)
        = Inr (case reason of None \<Rightarrow> ''MANUAL_CLOSE'' | Some s \<Rightarrow> s)"
    by (rule closure_reason_column_fits)
next
  assume "closure_reason_column (case reason of None \<Rightarrow> ''MANUAL_CLOSE'' | Some s \<Rightarrow> s) = Inr c
            \<and> getTracking i tbl = None"
  then show "closeTracking now i t reason tbl = (Inr (), tbl)"
    by (auto intro: closeTracking_absent)
next
  assume h: "closure_reason_column (case reason of None \<Rightarrow> ''MANUAL_CLOSE'' | Some s \<Rightarrow> s) = Inr c
               \<and> unique_ids tbl \<and> getTracking i tbl = Some r \<and> rec_fecha_inicio r \<le> t"
  then have r: "r \<in> set tbl" "rec_id r = i" by (auto dest: getTracking_SomeD)
  from h r have c: "closeTracking now i t reason tbl = (Inr (), update_close now i t c tbl)"
    using closeTracking_present[of tbl r reason c now t] by simp
  then show "fst (closeTracking now i t reason tbl) = Inr ()" by simp
  from h c
  show "getTracking i (snd (closeTracking now i t reason tbl))
            = Some (r\<lparr>rec_fecha_final := Some t, rec_closure_reason := Some c,
                      rec_updated_at := now\<rparr>)"
    by (simp add: getTracking_update_close close_row_def)
next
  assume h: "closure_reason_column (case reason of None \<Rightarrow> ''MANUAL_CLOSE'' | Some s \<Rightarrow> s) = Inr c
               \<and> unique_ids tbl \<and> getTracking i tbl = Some r \<and> t < rec_fecha_inicio r"
  then have r: "r \<in> set tbl" "rec_id r = i" by (auto dest: getTracking_SomeD)
  from h r closeTracking_present[of tbl r reason c now t]
  show "closeTracking now i t reason tbl = (Inl (DatabaseError ''23514''), tbl)" by simp
next
  assume "closure_reason_column (case reason of None \<Rightarrow> ''MANUAL_CLOSE'' | Some s \<Rightarrow> s) = Inl e"
  then show "closeTracking now i t reason tbl = (Inl (DatabaseError ''22001''), tbl)"
    by (rule closeTracking_too_long)
qed

text \<open>
  One open interval, started at 10: closing the unknown id 999, closing id 1 at 50,
  closing id 1 at 5, and closing id 1 with a reason of 101 letters.
\<close>

theorem closeTracking_outcomes_witness:
  "closure_reason_column ''MANUAL_CLOSE'' = Inr ''MANUAL_CLOSE''
   \<and> getTracking 999 [interval 1 ''A'' 1 10 None None] = None
   \<and> closeTracking 100 999 50 None [interval 1 ''A'' 1 10 None None]
       = (Inr (), [interval 1 ''A'' 1 10 None None])
   \<and> unique_ids [interval 1 ''A'' 1 10 None None]
   \<and> getTracking 1 [interval 1 ''A'' 1 10 None None] = Some (interval 1 ''A'' 1 10 None None)
   \<and> fst (closeTracking 100 1 50 None [interval 1 ''A'' 1 10 None None]) = Inr ()
   \<and> getTracking 1 (snd (closeTracking 100 1 50 None [interval 1 ''A'' 1 10 None None]))
       = Some ((interval 1 ''A'' 1 10 (Some 50) (Some ''MANUAL_CLOSE''))\<lparr>rec_updated_at := 100\<rparr>)
   \<and> closeTracking 100 1 5 None [interval 1 ''A'' 1 10 None None]
       = (Inl (DatabaseError ''23514''), [interval 1 ''A'' 1 10 None None])
   \<and> closure_reason_column (replicate 101 (CHR ''x'')) = Inl (DatabaseError ''22001'')
   \<and> closeTracking 100 1 50 (Some (replicate 101 (CHR ''x''))) [interval 1 ''A'' 1 10 None None]
       = (Inl (DatabaseError ''22001''), [interval 1 ''A'' 1 10 None None])"
proof -
  have m: "closure_reason_column (case None of None \<Rightarrow> ''MANUAL_CLOSE'' | Some s \<Rightarrow> s)
             = Inr ''MANUAL_CLOSE''"
    by simp
  have x: "closure_reason_column
             (case Some (replicate 101 (CHR ''x'')) of None \<Rightarrow> ''MANUAL_CLOSE'' | Some s \<Rightarrow> s)
             = Inl (DatabaseError ''22001'')"
    by (simp add: closure_reason_column_def)
  have a: "getTracking 999 [interval 1 ''A'' 1 10 None None] = None"
    by (simp add: interval_def)
  have b: "unique_ids [interval 1 ''A'' 1 10 None None]" by (simp add: unique_ids_def)
  have c: "getTracking 1 [interval 1 ''A'' 1 10 None None] = Some (interval 1 ''A'' 1 10 None None)"
    by (simp add: interval_def)
  have d: "rec_fecha_inicio (interval 1 ''A'' 1 10 None None) = 10" by (simp add: interval_def)
  from closeTracking_outcomes[where i = 999 and tbl = "[interval 1 ''A'' 1 10 None None]"
                               and now = 100 and t = 50 and reason = None
                               and c = "''MANUAL_CLOSE''"]
       closeTracking_outcomes[where i = 1 and tbl = "[interval 1 ''A'' 1 10 None None]"
                               and r = "interval 1 ''A'' 1 10 None None"
                               and now = 100 and t = 50 and reason = None
                               and c = "''MANUAL_CLOSE''"]
       closeTracking_outcomes[where i = 1 and tbl = "[interval 1 ''A'' 1 10 None None]"
                               and r = "interval 1 ''A'' 1 10 None None"
                               and now = 100 and t = 5 and reason = None
                               and c = "''MANUAL_CLOSE''"]
       closeTracking_outcomes[where i = 1 and tbl = "[interval 1 ''A'' 1 10 None None]"
                               and now = 100 and t = 50
                               and reason = "Some (replicate 101 (CHR ''x''))"
                               and e = "DatabaseError ''22001''"]
       m x a b c d
  show ?thesis by (simp add: interval_def)
qed

text \<open>
  Claim C8 as stated fails: closing the id 999, which no interval has, raises nothing.
\<close>

theorem closeTracking_not_found_counterexample:
  "closeTracking 100 999 50 None [interval 1 ''A'' 1 10 None None]
     = (Inr (), [interval 1 ''A'' 1 10 None None])"
  by (simp add: closeTracking_def update_close_def interval_def)

section \<open>The lost race\<close>

text \<open>
  Claim C6, as amended.  When steps 1 and 2 pass and the \<^verbatim>\<open>INSERT\<close> then meets an open
  interval of the same workstation and window that another writer has put there, the
  storage error 23505 is caught and \<^verbatim>\<open>createTracking\<close> fails with a generic
  \<^verbatim>\<open>new Error(...)\<close> that carries no code: only its message text, "Database constraint
  violation", tells it from the other errors.  Nothing is inserted.
\<close>

theorem createTracking_unique_violation_generic:
  assumes "steps_before_insert now data tbl = (Inr (), tbl2)"
    and "\<exists>r \<in> set (others tbl2). rec_puesto_id r = puesto_id data \<and> same_window data r \<and> is_open r"
  shows "insert_tracking now data (others tbl2) = (Inl (DatabaseError ''23505''), others tbl2)
       \<and> createTracking_racing others now data tbl = (Inl (Error ConstraintViolation), others tbl2)
       \<and> error_code (Error ConstraintViolation) = None"
  using assms
  by (auto simp: createTracking_racing_def insert_tracking_def is_open_def)

text \<open>
  At a concrete race: the table is empty at steps 1 and 2; before the \<^verbatim>\<open>INSERT\<close> another
  writer opens the same window at the same workstation.
\<close>

theorem createTracking_unique_violation_generic_witness:
  "steps_before_insert 100 (scan ''A'' 1 50) [] = (Inr (), [])
   \<and> rec_puesto_id (interval 1 ''A'' 1 50 None None) = puesto_id (scan ''A'' 1 50)
   \<and> same_window (scan ''A'' 1 50) (interval 1 ''A'' 1 50 None None)
   \<and> is_open (interval 1 ''A'' 1 50 None None)
   \<and> createTracking_racing (\<lambda>t. t @ [interval 1 ''A'' 1 50 None None]) 100 (scan ''A'' 1 50) []
       = (Inl (Error ConstraintViolation), [interval 1 ''A'' 1 50 None None])"
proof -
  have a: "steps_before_insert 100 (scan ''A'' 1 50) [] = (Inr (), [])"
    by (simp add: service_defs)
  have b: "\<exists>r \<in> set ((\<lambda>t. t @ [interval 1 ''A'' 1 50 None None]) []).
             rec_puesto_id r = puesto_id (scan ''A'' 1 50) \<and> same_window (scan ''A'' 1 50) r \<and> is_open r"
    by (simp add: service_defs)
  from createTracking_unique_violation_generic
         [where others = "\<lambda>t. t @ [interval 1 ''A'' 1 50 None None]", OF a b] a b
  show ?thesis
    by simp
qed

text \<open>
  Claim C6 as stated fails.  The error of the lost race and the error of the occupied
  workstation are both a plain \<open>Error\<close>, and neither has a code: no kind or code
  distinguishes the first from the second, and the storage error's code 23505 is gone.
\<close>

theorem createTracking_unique_violation_counterexample:
  "fst (createTracking_racing (\<lambda>t. t @ [interval 1 ''A'' 1 50 None None]) 100 (scan ''A'' 1 50) [])
     = Inl (Error ConstraintViolation)
   \<and> fst (createTracking 100 (scan ''B'' 1 60) [interval 1 ''A'' 1 50 None None])
     = Inl (Error (OpenTrackingExists 1 ''A'' 1 1 50))
   \<and> error_code (Error ConstraintViolation) = error_code (Error (OpenTrackingExists 1 ''A'' 1 1 50))
   \<and> error_code (Error ConstraintViolation) \<noteq> Some ''23505''"
  by (simp add: service_defs)

section \<open>Closed intervals\<close>

lemma steps_before_insert_keeps_closed:
  assumes "unique_ids tbl" "r \<in> set tbl" "\<not> is_open r"
  shows "r \<in> set (snd (steps_before_insert now data tbl))"
proof -
  have keep: "r \<in> set (update_close now' (rec_id a) t c tbl')"
    if "a \<in> set tbl'" "is_open a" "r \<in> set tbl'" "unique_ids tbl'" for a tbl' now' t c
    using that assms(3) by (auto simp: set_update_close dest: unique_ids_same)
  show ?thesis
  proof (cases "select_open_in_other_puesto data tbl")
    case None
    show ?thesis
    proof (cases "findOpenTrackingInPuesto (puesto_id data) tbl")
      case N2: None
      with None show ?thesis
        by (simp add: steps_before_insert_def closeTrackingInOtherPuesto_def assms)
    next
      case (Some b)
      then have b: "b \<in> set tbl" "is_open b" by (auto dest: findOpenTrackingInPuesto_SomeD)
      with None Some assms show ?thesis
        by (auto simp: steps_before_insert_def closeTrackingInOtherPuesto_def
                       closeTracking_present intro: keep)
    qed
  next
    case (Some a)
    then have a: "a \<in> set tbl" "is_open a" by (auto dest: select_open_in_other_puesto_SomeD)
    show ?thesis
    proof (cases "fecha_inicio data < rec_fecha_inicio a")
      case True
      with Some a assms show ?thesis
        by (simp add: steps_before_insert_def closeTrackingInOtherPuesto_def closeTracking_present)
    next
      case False
      let ?t1 = "update_close now (rec_id a) (fecha_inicio data) ''CHAIN_TRANSITION'' tbl"
      have r1: "r \<in> set ?t1" using a assms by (auto intro: keep)
      have u1: "unique_ids ?t1" using assms by simp
      have c1: "closeTrackingInOtherPuesto now data tbl = (Inr (), ?t1)"
        using Some a assms False by (simp add: closeTrackingInOtherPuesto_def closeTracking_present)
      show ?thesis
      proof (cases "findOpenTrackingInPuesto (puesto_id data) ?t1")
        case None
        with c1 r1 show ?thesis by (simp add: steps_before_insert_def)
      next
        case S2: (Some b)
        then have b: "b \<in> set ?t1" "is_open b" by (auto dest: findOpenTrackingInPuesto_SomeD)
        with c1 r1 u1 S2 show ?thesis
          by (auto simp: steps_before_insert_def closeTracking_present intro: keep)
      qed
    qed
  qed
qed

lemma createTracking_racing_snd:
  "snd (createTracking_racing (\<lambda>t. t) now data tbl) = snd (steps_before_insert now data tbl)
   \<or> (\<exists>x. snd (createTracking_racing (\<lambda>t. t) now data tbl)
            = snd (steps_before_insert now data tbl) @ [x])"
  by (auto simp: createTracking_racing_def insert_tracking_def split: prod.splits sum.splits)

text \<open>
  Claim C9, as amended.  No \<^verbatim>\<open>createTracking\<close>, whatever its outcome, changes a closed
  interval: the row stays in the table as it is.  \<^verbatim>\<open>closeTracking\<close> never changes an
  interval's workstation, window identity or start time, and leaves every interval with
  another id untouched.  Called with the id of a closed interval, an end time not before
  its start and a reason the column \<^verbatim>\<open>closure_reason VARCHAR(100)\<close> accepts, it overwrites
  that interval's \<open>end_time\<close> and \<open>closure_reason\<close>; with a reason the column refuses it
  leaves the interval as it is.
\<close>

theorem closed_interval_frame:
  assumes "unique_ids tbl" "r \<in> set tbl" "\<not> is_open r"
  shows "r \<in> set (snd (createTracking now data tbl))
       \<and> (\<exists>r'. getTracking (rec_id r) (snd (closeTracking now i t reason tbl)) = Some r'
               \<and> rec_puesto_id r' = rec_puesto_id r \<and> rec_lote r' = rec_lote r
               \<and> rec_instancia r' = rec_instancia r \<and> rec_version r' = rec_version r
               \<and> rec_fecha_inicio r' = rec_fecha_inicio r
               \<and> (i \<noteq> rec_id r \<longrightarrow> r' = r)
               \<and> (\<forall>c. i = rec_id r \<and> rec_fecha_inicio r \<le> t
                       \<and> closure_reason_column
                            (case reason of None \<Rightarrow> ''MANUAL_CLOSE'' | Some s \<Rightarrow> s) = Inr c \<longrightarrow>
                    rec_fecha_final r' = Some t \<and> rec_closure_reason r' = Some c)
               \<and> (\<forall>e. closure_reason_column
                            (case reason of None \<Rightarrow> ''MANUAL_CLOSE'' | Some s \<Rightarrow> s) = Inl e \<longrightarrow>
                    r' = r))"
proof
  from steps_before_insert_keeps_closed[OF assms, of now data]
       createTracking_racing_snd[of now data tbl]
  show "r \<in> set (snd (createTracking now data tbl))"
    by (auto simp: createTracking_def)
next
  let ?R = "case reason of None \<Rightarrow> ''MANUAL_CLOSE'' | Some s \<Rightarrow> s"
  have g: "getTracking (rec_id r) tbl = Some r" using assms by (simp add: getTracking_unique)
  show "\<exists>r'. getTracking (rec_id r) (snd (closeTracking now i t reason tbl)) = Some r'
               \<and> rec_puesto_id r' = rec_puesto_id r \<and> rec_lote r' = rec_lote r
               \<and> rec_instancia r' = rec_instancia r \<and> rec_version r' = rec_version r
               \<and> rec_fecha_inicio r' = rec_fecha_inicio r
               \<and> (i \<noteq> rec_id r \<longrightarrow> r' = r)
               \<and> (\<forall>c. i = rec_id r \<and> rec_fecha_inicio r \<le> t
                       \<and> closure_reason_column ?R = Inr c \<longrightarrow>
                    rec_fecha_final r' = Some t \<and> rec_closure_reason r' = Some c)
               \<and> (\<forall>e. closure_reason_column ?R = Inl e \<longrightarrow> r' = r)"
  proof (cases "closure_reason_column ?R")
    case (Inl e)
    then have "closeTracking now i t reason tbl = (Inl (DatabaseError ''22001''), tbl)"
      by (rule closeTracking_too_long)
    with g Inl show ?thesis by simp
  next
    case (Inr c)
    show ?thesis
    proof (cases "i = rec_id r")
      case True
      with assms g Inr show ?thesis
        by (auto simp: closeTracking_present getTracking_update_close)
    next
      case False
      with g Inr show ?thesis
        by (auto simp: closeTracking_def getTracking_update_close)
    qed
  qed
qed

theorem closed_interval_frame_witness:
  "unique_ids [interval 1 ''A'' 1 10 (Some 20) (Some ''CHAIN_TRANSITION'')]
   \<and> \<not> is_open (interval 1 ''A'' 1 10 (Some 20) (Some ''CHAIN_TRANSITION''))
   \<and> interval 1 ''A'' 1 10 (Some 20) (Some ''CHAIN_TRANSITION'')
       \<in> set (snd (createTracking 100 (scan ''A'' 1 50)
                     [interval 1 ''A'' 1 10 (Some 20) (Some ''CHAIN_TRANSITION'')]))
   \<and> snd (createTracking 100 (scan ''A'' 1 50)
            [interval 1 ''A'' 1 10 (Some 20) (Some ''CHAIN_TRANSITION'')])
       = [interval 1 ''A'' 1 10 (Some 20) (Some ''CHAIN_TRANSITION''),
          (interval 2 ''A'' 1 50 None None)\<lparr>rec_created_at := 100, rec_updated_at := 100\<rparr>]"
proof -
  have a: "unique_ids [interval 1 ''A'' 1 10 (Some 20) (Some ''CHAIN_TRANSITION'')]"
    by (simp add: unique_ids_def)
  have b: "interval 1 ''A'' 1 10 (Some 20) (Some ''CHAIN_TRANSITION'')
             \<in> set [interval 1 ''A'' 1 10 (Some 20) (Some ''CHAIN_TRANSITION'')]" by simp
  have c: "\<not> is_open (interval 1 ''A'' 1 10 (Some 20) (Some ''CHAIN_TRANSITION''))"
    by (simp add: is_open_def interval_def)
  have d: "snd (createTracking 100 (scan ''A'' 1 50)
            [interval 1 ''A'' 1 10 (Some 20) (Some ''CHAIN_TRANSITION'')])
       = [interval 1 ''A'' 1 10 (Some 20) (Some ''CHAIN_TRANSITION''),
          (interval 2 ''A'' 1 50 None None)\<lparr>rec_created_at := 100, rec_updated_at := 100\<rparr>]"
    by (simp add: service_defs)
  from closed_interval_frame[OF a b c, where now = 100 and data = "scan ''A'' 1 50"] a c d
  show ?thesis by simp
qed

text \<open>
  Claim C9 as stated fails: a second \<^verbatim>\<open>closeTracking\<close> on an interval closed at 20 by a
  chain transition moves its end to 30 and its reason to \<^verbatim>\<open>MANUAL_CLOSE\<close>.
\<close>

theorem closed_interval_immutable_counterexample:
  "\<not> is_open (interval 1 ''A'' 1 10 (Some 20) (Some ''CHAIN_TRANSITION''))
   \<and> closeTracking 100 1 30 None [interval 1 ''A'' 1 10 (Some 20) (Some ''CHAIN_TRANSITION'')]
       = (Inr (), [(interval 1 ''A'' 1 10 (Some 30) (Some ''MANUAL_CLOSE''))\<lparr>rec_updated_at := 100\<rparr>])"
  by (simp add: service_defs)

section \<open>Overlap detection\<close>

lemma set_findOverlaps:
  "set (findOverlaps now tbl) =
     {overlap_row now t1 t2 |t1 t2. t1 \<in> set tbl \<and> t2 \<in> set tbl \<and> overlap_condition now t1 t2}"
  by (auto simp: findOverlaps_def)

lemma ranges_intersect_iff:
  "ranges_intersect now r q \<longleftrightarrow>
     max (rec_fecha_inicio r) (rec_fecha_inicio q) < min (period_end now r) (period_end now q)"
  by (auto simp: ranges_intersect_def range_of_def Int_atLeastLessThan)

lemma overlap_is_measure:
  "ranges_intersect now r q \<Longrightarrow>
     overlap_seconds (overlap_row now r q) = int (card (range_of now r \<inter> range_of now q))"
  by (simp add: ranges_intersect_iff overlap_row_def range_of_def Int_atLeastLessThan)

lemma overlap_condition_iff:
  assumes "rec_fecha_inicio r < period_end now r" "rec_fecha_inicio q < period_end now q"
  shows "overlap_condition now r q \<longleftrightarrow>
           rec_id r < rec_id q \<and> rec_puesto_id r = rec_puesto_id q \<and> ranges_intersect now r q"
  using assms by (auto simp: overlap_condition_def ranges_intersect_iff)

lemma chain_scenario_rows:
  "chain_scenario =
     [(interval 1 ''TEST001'' 1 36000 (Some 37800) (Some ''CHAIN_TRANSITION''))\<lparr>rec_updated_at := 37800\<rparr>,
      (interval 2 ''TEST001'' 2 37800 (Some 39600) (Some ''CHAIN_TRANSITION''))\<lparr>rec_updated_at := 39600\<rparr>,
      interval 3 ''TEST001'' 3 39600 None None]"
  by (simp add: chain_scenario_def service_defs)

lemma findOverlaps_mem_iff:
  assumes "unique_ids tbl" "t1 \<in> set tbl" "t2 \<in> set tbl"
  shows "overlap_row now t1 t2 \<in> set (findOverlaps now tbl) \<longleftrightarrow> overlap_condition now t1 t2"
proof
  assume "overlap_row now t1 t2 \<in> set (findOverlaps now tbl)"
  then obtain a b where ab: "overlap_row now t1 t2 = overlap_row now a b"
      "a \<in> set tbl" "b \<in> set tbl" "overlap_condition now a b"
    by (auto simp: set_findOverlaps)
  from ab(1) have "rec_id t1 = rec_id a" "rec_id t2 = rec_id b"
    by (simp_all add: overlap_row_def)
  with assms ab(2,3) have "t1 = a" "t2 = b" by (auto dest: unique_ids_same)
  with ab(4) show "overlap_condition now t1 t2" by simp
next
  assume "overlap_condition now t1 t2"
  with assms show "overlap_row now t1 t2 \<in> set (findOverlaps now tbl)"
    by (auto simp: set_findOverlaps)
qed

text \<open>
  Claim C5, as amended.  \<^verbatim>\<open>findOverlaps\<close> returns exactly the rows built from two intervals
  \<open>t1\<close>, \<open>t2\<close> of one workstation with \<open>t1.id < t2.id\<close> in which each starts before the
  other's end-or-now.  Every returned row carries the duration \<open>min\<close> of the ends minus
  \<open>max\<close> of the starts, and none has touching endpoints.  In a store with unique ids, for
  two intervals whose ranges \<open>[start_time, end_time-or-now)\<close> are both non-empty, the pair
  is returned exactly
  when \<open>t1.id < t2.id\<close>, the workstation is the same and the half-open ranges intersect,
  and then its duration is positive and is the size of the intersection.  The chain of
  window \<^verbatim>\<open>(TEST001, 1, 1)\<close> through workstations 1, 2, 3 at 10:00, 10:30, 11:00 yields
  the three intervals of the specification and no pair.
\<close>

theorem findOverlaps_half_open_ranges:
  "set (findOverlaps now tbl) =
           {overlap_row now t1 t2 |t1 t2. t1 \<in> set tbl \<and> t2 \<in> set tbl \<and> rec_id t1 < rec_id t2
              \<and> rec_puesto_id t1 = rec_puesto_id t2
              \<and> rec_fecha_inicio t1 < period_end now t2
              \<and> rec_fecha_inicio t2 < period_end now t1}
   \<and> (\<forall>ov \<in> set (findOverlaps now tbl).
         overlap_seconds ov = min (final1 ov) (final2 ov) - max (inicio1 ov) (inicio2 ov)
         \<and> final1 ov \<noteq> inicio2 ov \<and> final2 ov \<noteq> inicio1 ov)
   \<and> (unique_ids tbl \<longrightarrow> (\<forall>t1 \<in> set tbl. \<forall>t2 \<in> set tbl.
         rec_fecha_inicio t1 < period_end now t1 \<and> rec_fecha_inicio t2 < period_end now t2 \<longrightarrow>
           (overlap_row now t1 t2 \<in> set (findOverlaps now tbl)
              \<longleftrightarrow> rec_id t1 < rec_id t2 \<and> rec_puesto_id t1 = rec_puesto_id t2
                  \<and> ranges_intersect now t1 t2)
           \<and> (ranges_intersect now t1 t2 \<longrightarrow>
                0 < overlap_seconds (overlap_row now t1 t2)
                \<and> overlap_seconds (overlap_row now t1 t2)
                    = int (card (range_of now t1 \<inter> range_of now t2)))))
   \<and> chain_scenario =
           [(interval 1 ''TEST001'' 1 36000 (Some 37800) (Some ''CHAIN_TRANSITION''))\<lparr>rec_updated_at := 37800\<rparr>,
            (interval 2 ''TEST001'' 2 37800 (Some 39600) (Some ''CHAIN_TRANSITION''))\<lparr>rec_updated_at := 39600\<rparr>,
            interval 3 ''TEST001'' 3 39600 None None]
   \<and> findOverlaps now' chain_scenario = []"
proof (intro conjI)
  show "set (findOverlaps now tbl) =
           {overlap_row now t1 t2 |t1 t2. t1 \<in> set tbl \<and> t2 \<in> set tbl \<and> rec_id t1 < rec_id t2
              \<and> rec_puesto_id t1 = rec_puesto_id t2
              \<and> rec_fecha_inicio t1 < period_end now t2
              \<and> rec_fecha_inicio t2 < period_end now t1}"
    unfolding set_findOverlaps overlap_condition_def by blast
  show "\<forall>ov \<in> set (findOverlaps now tbl).
         overlap_seconds ov = min (final1 ov) (final2 ov) - max (inicio1 ov) (inicio2 ov)
         \<and> final1 ov \<noteq> inicio2 ov \<and> final2 ov \<noteq> inicio1 ov"
    by (auto simp: set_findOverlaps overlap_condition_def overlap_row_def)
  show "unique_ids tbl \<longrightarrow> (\<forall>t1 \<in> set tbl. \<forall>t2 \<in> set tbl.
         rec_fecha_inicio t1 < period_end now t1 \<and> rec_fecha_inicio t2 < period_end now t2 \<longrightarrow>
           (overlap_row now t1 t2 \<in> set (findOverlaps now tbl)
              \<longleftrightarrow> rec_id t1 < rec_id t2 \<and> rec_puesto_id t1 = rec_puesto_id t2
                  \<and> ranges_intersect now t1 t2)
           \<and> (ranges_intersect now t1 t2 \<longrightarrow>
                0 < overlap_seconds (overlap_row now t1 t2)
                \<and> overlap_seconds (overlap_row now t1 t2)
                    = int (card (range_of now t1 \<inter> range_of now t2))))"
  proof (intro ballI impI conjI)
    fix t1 t2
    assume u: "unique_ids tbl" and t: "t1 \<in> set tbl" "t2 \<in> set tbl"
      and ne: "rec_fecha_inicio t1 < period_end now t1 \<and> rec_fecha_inicio t2 < period_end now t2"
    from u t ne show "overlap_row now t1 t2 \<in> set (findOverlaps now tbl)
              \<longleftrightarrow> rec_id t1 < rec_id t2 \<and> rec_puesto_id t1 = rec_puesto_id t2
                  \<and> ranges_intersect now t1 t2"
      by (simp add: findOverlaps_mem_iff overlap_condition_iff)
    assume ri: "ranges_intersect now t1 t2"
    then show "0 < overlap_seconds (overlap_row now t1 t2)"
      by (simp add: ranges_intersect_iff overlap_row_def)
    from ri show "overlap_seconds (overlap_row now t1 t2)
                    = int (card (range_of now t1 \<inter> range_of now t2))"
      by (rule overlap_is_measure)
  qed
  show "chain_scenario =
           [(interval 1 ''TEST001'' 1 36000 (Some 37800) (Some ''CHAIN_TRANSITION''))\<lparr>rec_updated_at := 37800\<rparr>,
            (interval 2 ''TEST001'' 2 37800 (Some 39600) (Some ''CHAIN_TRANSITION''))\<lparr>rec_updated_at := 39600\<rparr>,
            interval 3 ''TEST001'' 3 39600 None None]"
    by (rule chain_scenario_rows)
  show "findOverlaps now' chain_scenario = []"
    by (simp add: chain_scenario_rows findOverlaps_def overlap_condition_def interval_def)
qed

text \<open>
  Two intervals of workstation 1, \<open>[0, 10)\<close> and \<open>[5, 20)\<close>: both ranges are non-empty,
  they intersect, and the pair is returned, with duration 5.
\<close>

theorem findOverlaps_half_open_ranges_witness:
  "unique_ids [interval 1 ''A'' 1 0 (Some 10) (Some ''MANUAL_CLOSE''),
               interval 2 ''B'' 1 5 (Some 20) (Some ''MANUAL_CLOSE'')]
   \<and> rec_fecha_inicio (interval 1 ''A'' 1 0 (Some 10) (Some ''MANUAL_CLOSE''))
     < period_end 30 (interval 1 ''A'' 1 0 (Some 10) (Some ''MANUAL_CLOSE''))
   \<and> rec_fecha_inicio (interval 2 ''B'' 1 5 (Some 20) (Some ''MANUAL_CLOSE''))
     < period_end 30 (interval 2 ''B'' 1 5 (Some 20) (Some ''MANUAL_CLOSE''))
   \<and> ranges_intersect 30 (interval 1 ''A'' 1 0 (Some 10) (Some ''MANUAL_CLOSE''))
                         (interval 2 ''B'' 1 5 (Some 20) (Some ''MANUAL_CLOSE''))
   \<and> overlap_row 30 (interval 1 ''A'' 1 0 (Some 10) (Some ''MANUAL_CLOSE''))
                    (interval 2 ''B'' 1 5 (Some 20) (Some ''MANUAL_CLOSE''))
       \<in> set (findOverlaps 30 [interval 1 ''A'' 1 0 (Some 10) (Some ''MANUAL_CLOSE''),
                               interval 2 ''B'' 1 5 (Some 20) (Some ''MANUAL_CLOSE'')])
   \<and> overlap_seconds (overlap_row 30 (interval 1 ''A'' 1 0 (Some 10) (Some ''MANUAL_CLOSE''))
                                     (interval 2 ''B'' 1 5 (Some 20) (Some ''MANUAL_CLOSE''))) = 5"
proof -
  let ?a = "interval 1 ''A'' 1 0 (Some 10) (Some ''MANUAL_CLOSE'')"
  let ?b = "interval 2 ''B'' 1 5 (Some 20) (Some ''MANUAL_CLOSE'')"
  have u: "unique_ids [?a, ?b]" by (simp add: unique_ids_def interval_def)
  have ma: "?a \<in> set [?a, ?b]" and mb: "?b \<in> set [?a, ?b]" by simp_all
  have ne: "rec_fecha_inicio ?a < period_end 30 ?a \<and> rec_fecha_inicio ?b < period_end 30 ?b"
    by (simp add: interval_def period_end_def)
  have i: "ranges_intersect 30 ?a ?b"
    by (simp add: ranges_intersect_iff interval_def period_end_def)
  have k: "rec_id ?a < rec_id ?b \<and> rec_puesto_id ?a = rec_puesto_id ?b"
    by (simp add: interval_def)
  have o: "overlap_seconds (overlap_row 30 ?a ?b) = 5"
    by (simp add: overlap_row_def interval_def period_end_def)
  note pairs = findOverlaps_half_open_ranges[of 30 "[?a, ?b]", THEN conjunct2, THEN conjunct2,
                 THEN conjunct1, rule_format, OF u ma mb ne]
  from pairs i k have "overlap_row 30 ?a ?b \<in> set (findOverlaps 30 [?a, ?b])" by blast
  with u ne i o show ?thesis by blast
qed

text \<open>
  Claim C5 as stated fails on an interval of length zero, as a rescan at an unchanged
  timestamp leaves behind.  At workstation 1 the interval \<open>[5, 5)\<close> has no instant at all,
  so its range intersects nothing; \<^verbatim>\<open>findOverlaps\<close> returns it paired with \<open>[0, 10)\<close>,
  with duration 0.
\<close>

theorem findOverlaps_empty_range_counterexample:
  "range_of 30 (interval 1 ''A'' 1 5 (Some 5) (Some ''RESCANNED_SAME_WINDOW'')) = {}
   \<and> \<not> ranges_intersect 30 (interval 1 ''A'' 1 5 (Some 5) (Some ''RESCANNED_SAME_WINDOW''))
                            (interval 2 ''B'' 1 0 (Some 10) (Some ''MANUAL_CLOSE''))
   \<and> findOverlaps 30 [interval 1 ''A'' 1 5 (Some 5) (Some ''RESCANNED_SAME_WINDOW''),
                       interval 2 ''B'' 1 0 (Some 10) (Some ''MANUAL_CLOSE'')]
       = [\<lparr>tracking1_id = 1, ov_puesto_id = 1, lote1 = ''A'', instancia1 = 1, version1 = 1,
           inicio1 = 5, final1 = 5, tracking2_id = 2, lote2 = ''B'', instancia2 = 1,
           version2 = 1, inicio2 = 0, final2 = 10, overlap_seconds = 0\<rparr>]"
  by (simp add: ranges_intersect_def range_of_def findOverlaps_def overlap_condition_def
                overlap_row_def interval_def period_end_def)

section \<open>The steps of createTracking, case by case\<close>


lemma select_open_in_other_puesto_only:
  assumes "a \<in> set tbl" "is_open a" "same_window data a" "rec_puesto_id a \<noteq> puesto_id data"
    and "\<forall>q \<in> set tbl. is_open q \<and> same_window data q \<longrightarrow> q = a"
  shows "select_open_in_other_puesto data tbl = Some a"
proof (cases "select_open_in_other_puesto data tbl")
  case None
  with assms(1-4) show ?thesis by (auto simp: select_open_in_other_puesto_None_iff)
next
  case (Some b)
  with assms(5) show ?thesis by (auto dest: select_open_in_other_puesto_SomeD)
qed

text \<open>Step 1, under a primary key.\<close>

lemma closeTrackingInOtherPuesto_cases:
  assumes "unique_ids tbl"
  obtains (none) "select_open_in_other_puesto data tbl = None"
      "closeTrackingInOtherPuesto now data tbl = (Inr (), tbl)"
  | (late) a where "select_open_in_other_puesto data tbl = Some a"
      "fecha_inicio data < rec_fecha_inicio a"
      "closeTrackingInOtherPuesto now data tbl = (Inl (DatabaseError ''23514''), tbl)"
  | (chain) a where "select_open_in_other_puesto data tbl = Some a"
      "rec_fecha_inicio a \<le> fecha_inicio data"
      "closeTrackingInOtherPuesto now data tbl
         = (Inr (), update_close now (rec_id a) (fecha_inicio data) ''CHAIN_TRANSITION'' tbl)"
proof (cases "select_open_in_other_puesto data tbl")
  case None
  then show ?thesis by (auto intro: none simp: closeTrackingInOtherPuesto_def)
next
  case (Some a)
  then have "a \<in> set tbl" by (auto dest: select_open_in_other_puesto_SomeD)
  with assms Some show ?thesis
    by (cases "fecha_inicio data < rec_fecha_inicio a")
       (auto intro: late chain simp: closeTrackingInOtherPuesto_def closeTracking_present)
qed

text \<open>Steps 1 and 2 together, under a primary key: the five ways they can end.\<close>

lemma steps_before_insert_cases:
  assumes "unique_ids tbl"
  obtains (late_chain) a where "select_open_in_other_puesto data tbl = Some a"
      "fecha_inicio data < rec_fecha_inicio a"
      "steps_before_insert now data tbl = (Inl (DatabaseError ''23514''), tbl)"
  | (free) tbl1 where
      "closeTrackingInOtherPuesto now data tbl = (Inr (), tbl1)"
      "findOpenTrackingInPuesto (puesto_id data) tbl1 = None"
      "steps_before_insert now data tbl = (Inr (), tbl1)"
  | (occupied) tbl1 b where
      "closeTrackingInOtherPuesto now data tbl = (Inr (), tbl1)"
      "findOpenTrackingInPuesto (puesto_id data) tbl1 = Some b" "\<not> same_window data b"
      "steps_before_insert now data tbl
         = (Inl (Error (OpenTrackingExists (puesto_id data) (rec_lote b) (rec_instancia b)
                          (rec_version b) (rec_fecha_inicio b))), tbl1)"
  | (late_rescan) tbl1 b where
      "closeTrackingInOtherPuesto now data tbl = (Inr (), tbl1)"
      "findOpenTrackingInPuesto (puesto_id data) tbl1 = Some b" "same_window data b"
      "fecha_inicio data < rec_fecha_inicio b"
      "steps_before_insert now data tbl = (Inl (DatabaseError ''23514''), tbl1)"
  | (rescan) tbl1 b where
      "closeTrackingInOtherPuesto now data tbl = (Inr (), tbl1)"
      "findOpenTrackingInPuesto (puesto_id data) tbl1 = Some b" "same_window data b"
      "rec_fecha_inicio b \<le> fecha_inicio data"
      "steps_before_insert now data tbl
         = (Inr (), update_close now (rec_id b) (fecha_inicio data) ''RESCANNED_SAME_WINDOW'' tbl1)"
proof -
  obtain res tbl1 where s1: "closeTrackingInOtherPuesto now data tbl = (res, tbl1)"
    by (cases "closeTrackingInOtherPuesto now data tbl")
  show ?thesis
  proof (cases res)
    case (Inl e)
    from assms show ?thesis
    proof (cases rule: closeTrackingInOtherPuesto_cases[where data = data and now = now])
      case none with s1 Inl show ?thesis by simp
    next
      case (late a) with s1 Inl show ?thesis
        by (auto intro: late_chain simp: steps_before_insert_def)
    next
      case (chain a) with s1 Inl show ?thesis by simp
    qed
  next
    case (Inr u)
    with s1 have s1': "closeTrackingInOtherPuesto now data tbl = (Inr (), tbl1)" by simp
    have "map rec_id tbl1 = map rec_id tbl"
      using s1' by (auto simp: closeTrackingInOtherPuesto_def closeTracking_def
                         split: option.splits if_splits)
    with assms have u1: "unique_ids tbl1" by (simp add: unique_ids_def)
    show ?thesis
    proof (cases "findOpenTrackingInPuesto (puesto_id data) tbl1")
      case None
      with s1' show ?thesis by (auto intro: free simp: steps_before_insert_def)
    next
      case (Some b)
      then have b: "b \<in> set tbl1" by (auto dest: findOpenTrackingInPuesto_SomeD)
      show ?thesis
      proof (cases "same_window data b")
        case False
        with s1' Some show ?thesis
          by (auto intro!: occupied simp: steps_before_insert_def same_window_def)
      next
        case True
        show ?thesis
        proof (cases "fecha_inicio data < rec_fecha_inicio b")
          case late: True
          have "steps_before_insert now data tbl = (Inl (DatabaseError ''23514''), tbl1)"
            using s1' Some True late u1 b
            by (simp add: steps_before_insert_def same_window_def closeTracking_present)
          with s1' Some True late show ?thesis by (rule late_rescan)
        next
          case ok: False
          have "steps_before_insert now data tbl
                  = (Inr (), update_close now (rec_id b) (fecha_inicio data)
                               ''RESCANNED_SAME_WINDOW'' tbl1)"
            using s1' Some True ok u1 b
            by (simp add: steps_before_insert_def same_window_def closeTracking_present)
          with s1' Some True ok show ?thesis by (intro rescan) auto
        qed
      qed
    qed
  qed
qed

text \<open>What is open after a step was open before it.\<close>

lemma closeTrackingInOtherPuesto_open:
  assumes "closeTrackingInOtherPuesto now data tbl = (res, tbl1)" "q \<in> set tbl1" "is_open q"
  shows "q \<in> set tbl"
  using assms
  by (auto simp: closeTrackingInOtherPuesto_def closeTracking_def
           split: option.splits if_splits dest: open_update_close)

lemma closeTrackingInOtherPuesto_ids:
  assumes "closeTrackingInOtherPuesto now data tbl = (res, tbl1)"
  shows "map rec_id tbl1 = map rec_id tbl"
  using assms
  by (auto simp: closeTrackingInOtherPuesto_def closeTracking_def split: option.splits if_splits)

lemma closeTrackingInOtherPuesto_other_ids:
  assumes "unique_ids tbl" "closeTrackingInOtherPuesto now data tbl = (res, tbl1)" "r \<in> set tbl"
    and "\<not> (is_open r \<and> same_window data r \<and> rec_puesto_id r \<noteq> puesto_id data)"
  shows "r \<in> set tbl1"
  using assms(1)
proof (cases rule: closeTrackingInOtherPuesto_cases[where data = data and now = now])
  case none with assms show ?thesis by simp
next
  case (late a) with assms show ?thesis by simp
next
  case (chain a)
  then have "a \<in> set tbl" "is_open a" "same_window data a" "rec_puesto_id a \<noteq> puesto_id data"
    by (auto dest: select_open_in_other_puesto_SomeD)
  with assms have "rec_id r \<noteq> rec_id a" by (auto dest: unique_ids_same)
  with chain assms show ?thesis by (auto simp: set_update_close)
qed


section \<open>The occupied workstation\<close>





section \<open>How many intervals a call closes\<close>

lemma createTracking_shape:
  "snd (createTracking now data tbl) = snd (steps_before_insert now data tbl)
   \<or> createTracking now data tbl
       = (Inr (new_row now data (snd (steps_before_insert now data tbl))),
          snd (steps_before_insert now data tbl)
            @ [new_row now data (snd (steps_before_insert now data tbl))])"
  by (auto simp: createTracking_def createTracking_racing_def insert_tracking_def
           split: prod.splits sum.splits)

lemma steps_before_insert_ids:
  "map rec_id (snd (steps_before_insert now data tbl)) = map rec_id tbl"
proof -
  obtain res tbl1 where s1: "closeTrackingInOtherPuesto now data tbl = (res, tbl1)"
    by (cases "closeTrackingInOtherPuesto now data tbl")
  then have "map rec_id tbl1 = map rec_id tbl" by (rule closeTrackingInOtherPuesto_ids)
  with s1 show ?thesis
    by (auto simp: steps_before_insert_def closeTracking_def split: sum.splits option.splits)
qed

lemma steps_before_insert_one_close:
  assumes "unique_ids tbl" "\<not> open_here_and_elsewhere data tbl"
  shows "snd (steps_before_insert now data tbl) = tbl
       \<or> (\<exists>a c. a \<in> set tbl \<and> is_open a
             \<and> snd (steps_before_insert now data tbl)
                 = update_close now (rec_id a) (fecha_inicio data) c tbl)"
proof -
  have chain_result: "tbl1 = tbl \<or> (\<exists>a c. a \<in> set tbl \<and> is_open a
             \<and> tbl1 = update_close now (rec_id a) (fecha_inicio data) c tbl)"
    if "closeTrackingInOtherPuesto now data tbl = (Inr (), tbl1)" for tbl1
    using assms(1)
  proof (cases rule: closeTrackingInOtherPuesto_cases[where data = data and now = now])
    case none with that show ?thesis by simp
  next
    case (late a) with that show ?thesis by simp
  next
    case (chain a)
    then have "a \<in> set tbl" "is_open a" by (auto dest: select_open_in_other_puesto_SomeD)
    with chain that show ?thesis by auto
  qed
  from assms(1) show ?thesis
  proof (cases rule: steps_before_insert_cases[where data = data and now = now])
    case (late_chain a) then show ?thesis by simp
  next
    case (free tbl1) with chain_result[of tbl1] show ?thesis by simp
  next
    case (occupied tbl1 b) with chain_result[of tbl1] show ?thesis by simp
  next
    case (late_rescan tbl1 b) with chain_result[of tbl1] show ?thesis by simp
  next
    case (rescan tbl1 b)
    from rescan(2) have b1: "b \<in> set tbl1" "is_open b" "rec_puesto_id b = puesto_id data"
      by (auto dest: findOpenTrackingInPuesto_SomeD)
    with rescan(1) have b: "b \<in> set tbl" by (auto dest: closeTrackingInOtherPuesto_open)
    from assms(1) have "tbl1 = tbl"
    proof (cases rule: closeTrackingInOtherPuesto_cases[where data = data and now = now])
      case none with rescan(1) show ?thesis by simp
    next
      case (late a) with rescan(1) show ?thesis by simp
    next
      case (chain a)
      then have a: "a \<in> set tbl" "is_open a" "same_window data a"
          "rec_puesto_id a \<noteq> puesto_id data"
        by (auto dest: select_open_in_other_puesto_SomeD)
      from rescan(3) b b1 a assms(2) show ?thesis
        unfolding open_here_and_elsewhere_def by blast
    qed
    with rescan b b1 show ?thesis by auto
  qed
qed

lemma closed_by_call_append_fresh:
  assumes "\<forall>r \<in> set tbl. rec_id r \<noteq> rec_id x"
  shows "closed_by_call tbl (mid @ [x]) = closed_by_call tbl mid"
proof -
  have "getTracking (rec_id r) (mid @ [x]) = getTracking (rec_id r) mid" if "r \<in> set tbl" for r
    using assms that by (intro getTracking_append_old) auto
  then show ?thesis
    unfolding closed_by_call_def by (intro filter_cong refl) simp
qed

lemma closed_by_call_same:
  assumes "unique_ids tbl"
  shows "closed_by_call tbl tbl = []"
  unfolding closed_by_call_def
  using assms by (simp add: filter_empty_conv getTracking_unique)

lemma closed_by_call_update_close:
  assumes "unique_ids tbl" "a \<in> set tbl" "is_open a"
  shows "set (closed_by_call tbl (update_close now (rec_id a) t c tbl)) = {a}"
proof -
  have "r \<in> set (closed_by_call tbl (update_close now (rec_id a) t c tbl)) \<longleftrightarrow> r = a" for r
  proof (cases "r \<in> set tbl")
    case False
    with assms(2) show ?thesis by (auto simp: closed_by_call_def)
  next
    case True
    with assms(1) have g: "getTracking (rec_id r) tbl = Some r" by (simp add: getTracking_unique)
    show ?thesis
    proof (cases "rec_id r = rec_id a")
      case same: True
      with True assms have "r = a" by (auto dest: unique_ids_same)
      with True assms g show ?thesis
        by (simp add: closed_by_call_def getTracking_update_close)
    next
      case False
      with True g show ?thesis
        by (auto simp: closed_by_call_def getTracking_update_close)
    qed
  qed
  then show ?thesis by auto
qed

lemma length_closed_by_call:
  assumes "unique_ids tbl" "set (closed_by_call tbl tbl') \<subseteq> {a}"
  shows "length (closed_by_call tbl tbl') \<le> 1"
proof -
  from assms(1) have "distinct tbl" by (simp add: unique_ids_def distinct_map)
  then have d: "distinct (closed_by_call tbl tbl')" by (simp add: closed_by_call_def)
  then have "length (closed_by_call tbl tbl') = card (set (closed_by_call tbl tbl'))"
    by (simp add: distinct_card)
  also have "\<dots> \<le> card {a}" using assms(2) by (intro card_mono) auto
  finally show ?thesis by simp
qed


text \<open>
  Claim C4, as amended.  In a store with unique ids in which the scanned window is not open
  both at the scan's workstation and at another one, one call of \<^verbatim>\<open>createTracking\<close>,
  whatever its outcome, closes at most one prior interval; every prior interval is
  afterwards either in the table as it was or is the one closed; and every row of the
  table afterwards is a prior row as it was, the interval the call returns, or the
  closed one under its id.
\<close>

theorem createTracking_closes_at_most_one:
  assumes "unique_ids tbl" "\<not> open_here_and_elsewhere data tbl"
  shows "length (closed_by_call tbl (snd (createTracking now data tbl))) \<le> 1
       \<and> (\<forall>r \<in> set tbl. r \<in> set (snd (createTracking now data tbl))
              \<or> r \<in> set (closed_by_call tbl (snd (createTracking now data tbl))))
       \<and> (\<forall>q \<in> set (snd (createTracking now data tbl)).
              q \<in> set tbl \<or> fst (createTracking now data tbl) = Inr q
              \<or> rec_id q \<in> rec_id ` set (closed_by_call tbl (snd (createTracking now data tbl))))"
proof -
  define mid where "mid = snd (steps_before_insert now data tbl)"
  define x where "x = new_row now data mid"
  define tbl' where "tbl' = snd (createTracking now data tbl)"
  have ids: "map rec_id mid = map rec_id tbl"
    unfolding mid_def by (rule steps_before_insert_ids)
  then have "next_id mid = next_id tbl" by (simp add: next_id_def)
  then have fresh: "\<forall>r \<in> set tbl. rec_id r \<noteq> rec_id x"
    using next_id_fresh[of _ tbl] by (fastforce simp: x_def new_row_def)
  have shape: "tbl' = mid \<or> (createTracking now data tbl = (Inr x, mid @ [x]))"
    using createTracking_shape[of now data tbl] by (simp add: mid_def x_def tbl'_def)
  have cb: "closed_by_call tbl tbl' = closed_by_call tbl mid"
    using shape fresh by (auto simp: tbl'_def closed_by_call_append_fresh)
  have sub: "set mid \<subseteq> set tbl'"
    using shape by (auto simp: tbl'_def)
  have mid_cases: "mid = tbl \<or> (\<exists>a c. a \<in> set tbl \<and> is_open a
             \<and> mid = update_close now (rec_id a) (fecha_inicio data) c tbl)"
    unfolding mid_def by (rule steps_before_insert_one_close[OF assms])
  have one: "length (closed_by_call tbl mid) \<le> 1"
    using mid_cases
  proof (elim disjE exE conjE)
    assume "mid = tbl"
    with assms(1) show ?thesis by (simp add: closed_by_call_same)
  next
    fix a c assume "a \<in> set tbl" "is_open a"
      "mid = update_close now (rec_id a) (fecha_inicio data) c tbl"
    with assms(1) have "set (closed_by_call tbl mid) \<subseteq> {a}"
      by (simp add: closed_by_call_update_close)
    with assms(1) show ?thesis by (rule length_closed_by_call)
  qed
  have old: "r \<in> set mid \<or> r \<in> set (closed_by_call tbl mid)" if "r \<in> set tbl" for r
    using mid_cases
  proof (elim disjE exE conjE)
    assume "mid = tbl" with that show ?thesis by simp
  next
    fix a c assume a: "a \<in> set tbl" "is_open a"
      and m: "mid = update_close now (rec_id a) (fecha_inicio data) c tbl"
    show ?thesis
    proof (cases "rec_id r = rec_id a")
      case True
      with assms(1) that a have "r = a" by (auto dest: unique_ids_same)
      with assms(1) a m show ?thesis by (simp add: closed_by_call_update_close)
    next
      case False
      with that m show ?thesis by (simp add: set_update_close)
    qed
  qed
  have new: "q \<in> set tbl \<or> rec_id q \<in> rec_id ` set (closed_by_call tbl mid)"
    if "q \<in> set mid" for q
    using mid_cases
  proof (elim disjE exE conjE)
    assume "mid = tbl" with that show ?thesis by simp
  next
    fix a c assume a: "a \<in> set tbl" "is_open a"
      and m: "mid = update_close now (rec_id a) (fecha_inicio data) c tbl"
    from assms(1) a
    have cl: "set (closed_by_call tbl (update_close now (rec_id a) (fecha_inicio data) c tbl)) = {a}"
      by (rule closed_by_call_update_close)
    from that show ?thesis
      unfolding m by (auto simp: set_update_close cl)
  qed
  have c1: "length (closed_by_call tbl tbl') \<le> 1" using one cb by simp
  have c2: "\<forall>r \<in> set tbl. r \<in> set tbl' \<or> r \<in> set (closed_by_call tbl tbl')"
    using old sub cb by auto
  have c3: "\<forall>q \<in> set tbl'. q \<in> set tbl \<or> fst (createTracking now data tbl) = Inr q
              \<or> rec_id q \<in> rec_id ` set (closed_by_call tbl tbl')"
  proof
    fix q assume q: "q \<in> set tbl'"
    from shape show "q \<in> set tbl \<or> fst (createTracking now data tbl) = Inr q
              \<or> rec_id q \<in> rec_id ` set (closed_by_call tbl tbl')"
    proof
      assume "tbl' = mid"
      with q new[of q] cb show ?thesis by auto
    next
      assume s: "createTracking now data tbl = (Inr x, mid @ [x])"
      then have "tbl' = mid @ [x]" by (simp add: tbl'_def)
      with q have "q \<in> set mid \<or> q = x" by auto
      with s new[of q] cb show ?thesis by auto
    qed
  qed
  from c1 c2 c3 show ?thesis unfolding tbl'_def by (intro conjI)
qed

text \<open>
  Window A open only at workstation 1 is scanned at workstation 2: the interval at
  workstation 1 is the one interval closed.
\<close>

theorem createTracking_closes_at_most_one_witness:
  "unique_ids [interval 1 ''A'' 1 10 None None, interval 2 ''B'' 3 20 None None]
   \<and> \<not> open_here_and_elsewhere (scan ''A'' 2 30)
         [interval 1 ''A'' 1 10 None None, interval 2 ''B'' 3 20 None None]
   \<and> closed_by_call [interval 1 ''A'' 1 10 None None, interval 2 ''B'' 3 20 None None]
        (snd (createTracking 100 (scan ''A'' 2 30)
                [interval 1 ''A'' 1 10 None None, interval 2 ''B'' 3 20 None None]))
       = [interval 1 ''A'' 1 10 None None]
   \<and> length (closed_by_call [interval 1 ''A'' 1 10 None None, interval 2 ''B'' 3 20 None None]
        (snd (createTracking 100 (scan ''A'' 2 30)
                [interval 1 ''A'' 1 10 None None, interval 2 ''B'' 3 20 None None]))) \<le> 1"
proof -
  let ?T = "[interval 1 ''A'' 1 10 None None, interval 2 ''B'' 3 20 None None]"
  have u: "unique_ids ?T" by (simp add: unique_ids_def interval_def)
  have s: "\<not> open_here_and_elsewhere (scan ''A'' 2 30) ?T"
    by (simp add: open_here_and_elsewhere_def interval_def scan_def is_open_def same_window_def)
  have c: "closed_by_call ?T (snd (createTracking 100 (scan ''A'' 2 30) ?T))
             = [interval 1 ''A'' 1 10 None None]"
    by (simp add: closed_by_call_def service_defs)
  from createTracking_closes_at_most_one[OF u s, of 100] u s c
  show ?thesis by simp
qed

text \<open>
  Claim C4 as stated fails in a store that the primary key and the unique index allow:
  window A open at workstation 2 and at workstation 1.  Two racing scans leave it so: the
  unique index is per workstation and window and refuses neither insert.  A later scan of
  A at workstation 2 closes the interval at workstation 1 as a chain transition and the
  one at workstation 2 as a rescan: two prior intervals.
\<close>

theorem createTracking_closes_two_counterexample:
  "snd (createTracking_racing (\<lambda>t. snd (createTracking 20 (scan ''A'' 2 20) t)) 10
          (scan ''A'' 1 10) [])
     = [interval 1 ''A'' 2 20 None None, interval 2 ''A'' 1 10 None None]
   \<and> unique_ids [interval 1 ''A'' 2 20 None None, interval 2 ''A'' 1 10 None None]
   \<and> open_here_and_elsewhere (scan ''A'' 2 30)
         [interval 1 ''A'' 2 20 None None, interval 2 ''A'' 1 10 None None]
   \<and> closed_by_call [interval 1 ''A'' 2 20 None None, interval 2 ''A'' 1 10 None None]
        (snd (createTracking 100 (scan ''A'' 2 30)
                [interval 1 ''A'' 2 20 None None, interval 2 ''A'' 1 10 None None]))
       = [interval 1 ''A'' 2 20 None None, interval 2 ''A'' 1 10 None None]
   \<and> snd (createTracking 100 (scan ''A'' 2 30)
                [interval 1 ''A'' 2 20 None None, interval 2 ''A'' 1 10 None None])
       = [(interval 1 ''A'' 2 20 (Some 30) (Some ''RESCANNED_SAME_WINDOW''))\<lparr>rec_updated_at := 100\<rparr>,
          (interval 2 ''A'' 1 10 (Some 30) (Some ''CHAIN_TRANSITION''))\<lparr>rec_updated_at := 100\<rparr>,
          (interval 3 ''A'' 2 30 None None)\<lparr>rec_created_at := 100, rec_updated_at := 100\<rparr>]"
  by (simp add: closed_by_call_def open_here_and_elsewhere_def service_defs)

section \<open>Two scans of one window\<close>

text \<open>After steps 1 and 2 have passed: the table of step 1, and what is still open.\<close>

lemma steps_before_insert_InrD:
  assumes "unique_ids tbl" "steps_before_insert now data tbl = (Inr (), mid)"
  obtains tbl1 where "closeTrackingInOtherPuesto now data tbl = (Inr (), tbl1)"
    and "\<forall>q \<in> set mid. is_open q \<longrightarrow> q \<in> set tbl1"
    and "\<forall>q \<in> set mid. is_open q \<and> rec_puesto_id q = puesto_id data \<longrightarrow>
           (\<exists>b \<in> set tbl1. is_open b \<and> rec_puesto_id b = puesto_id data \<and> rec_id b \<noteq> rec_id q)"
    and "\<forall>i. getTracking i mid = getTracking i tbl1
           \<or> (\<exists>b \<in> set tbl1. is_open b \<and> rec_id b = i)"
  using assms(1)
proof (cases rule: steps_before_insert_cases[where data = data and now = now])
  case (late_chain a) with assms(2) show ?thesis by simp
next
  case (free tbl1)
  with assms(2) have "mid = tbl1" by simp
  with free show ?thesis
    by (intro that[of tbl1]) (auto simp: findOpenTrackingInPuesto_None_iff)
next
  case (occupied tbl1 b) with assms(2) show ?thesis by simp
next
  case (late_rescan tbl1 b) with assms(2) show ?thesis by simp
next
  case (rescan tbl1 b)
  with assms(2)
  have m: "mid = update_close now (rec_id b) (fecha_inicio data) ''RESCANNED_SAME_WINDOW'' tbl1"
    by simp
  from rescan(2) have b: "b \<in> set tbl1" "is_open b" "rec_puesto_id b = puesto_id data"
    by (auto dest: findOpenTrackingInPuesto_SomeD)
  show ?thesis
  proof (rule that[of tbl1])
    show "closeTrackingInOtherPuesto now data tbl = (Inr (), tbl1)" by (rule rescan(1))
    show "\<forall>q \<in> set mid. is_open q \<longrightarrow> q \<in> set tbl1"
      unfolding m by (auto dest: open_update_close)
    show "\<forall>q \<in> set mid. is_open q \<and> rec_puesto_id q = puesto_id data \<longrightarrow>
           (\<exists>b \<in> set tbl1. is_open b \<and> rec_puesto_id b = puesto_id data \<and> rec_id b \<noteq> rec_id q)"
      unfolding m using b by (auto dest!: open_update_close)
    show "\<forall>i. getTracking i mid = getTracking i tbl1
           \<or> (\<exists>b \<in> set tbl1. is_open b \<and> rec_id b = i)"
      unfolding m using b by (auto simp: getTracking_update_close)
  qed
qed

text \<open>What a successful call leaves behind.\<close>

lemma createTracking_success_row:
  assumes "createTracking now data tbl = (Inr r, tbl')"
  shows "r \<in> set tbl' \<and> is_open r \<and> rec_puesto_id r = puesto_id data \<and> same_window data r
       \<and> rec_fecha_inicio r = fecha_inicio data"
  using assms
  by (elim createTracking_InrD) (simp add: new_row_def is_open_def same_window_def)

lemma createTracking_success_unique_ids:
  assumes "unique_ids tbl" "createTracking now data tbl = (Inr r, tbl')"
  shows "unique_ids tbl'"
  using assms(2)
proof (rule createTracking_InrD)
  fix mid assume s: "steps_before_insert now data tbl = (Inr (), mid)"
    and r: "r = new_row now data mid" and t: "tbl' = mid @ [r]"
  from s steps_before_insert_ids[of now data tbl] have ids: "map rec_id mid = map rec_id tbl"
    by simp
  have "rec_id y \<noteq> rec_id r" if "y \<in> set mid" for y
    unfolding r using that by (rule new_row_fresh)
  then have "rec_id r \<notin> set (map rec_id mid)" by force
  with assms(1) ids t show ?thesis by (simp add: unique_ids_def)
qed

text \<open>\<^verbatim>\<open>ORDER BY fecha_inicio DESC LIMIT 1\<close> returns a greatest start, and the only one if strict.\<close>

lemma latest_max:
  "latest rs = Some a \<Longrightarrow> x \<in> set rs \<Longrightarrow> rec_fecha_inicio x \<le> rec_fecha_inicio a"
proof (induction rs arbitrary: a)
  case Nil then show ?case by simp
next
  case (Cons r rs)
  show ?case
  proof (cases "latest rs")
    case None
    then have "rs = []" by (simp add: latest_None_iff)
    with Cons.prems None show ?thesis by simp
  next
    case (Some q)
    with Cons show ?thesis by (cases "x = r") (auto split: if_splits)
  qed
qed

lemma latest_strict:
  assumes "a \<in> set rs"
    and "\<forall>x \<in> set rs. x \<noteq> a \<longrightarrow> rec_fecha_inicio x < rec_fecha_inicio a"
  shows "latest rs = Some a"
proof (cases "latest rs")
  case None
  with assms(1) show ?thesis by (simp add: latest_None_iff)
next
  case (Some b)
  then have "b \<in> set rs" and "rec_fecha_inicio a \<le> rec_fecha_inicio b"
    using assms(1) by (auto dest: latest_mem latest_max)
  with assms(2) have "b = a" by force
  with Some show ?thesis by simp
qed

lemma select_open_in_other_puesto_max:
  assumes "select_open_in_other_puesto data tbl = Some a"
    and "q \<in> set tbl" "is_open q" "same_window data q" "rec_puesto_id q \<noteq> puesto_id data"
  shows "rec_fecha_inicio q \<le> rec_fecha_inicio a"
proof (rule latest_max)
  from assms(1)
  show "latest (filter (\<lambda>r. rec_lote r = lote data \<and> rec_instancia r = instancia data
                          \<and> rec_version r = version data \<and> rec_puesto_id r \<noteq> puesto_id data
                          \<and> rec_fecha_final r = None) tbl) = Some a"
    by (simp add: select_open_in_other_puesto_def)
  from assms(2-5)
  show "q \<in> set (filter (\<lambda>r. rec_lote r = lote data \<and> rec_instancia r = instancia data
                          \<and> rec_version r = version data \<and> rec_puesto_id r \<noteq> puesto_id data
                          \<and> rec_fecha_final r = None) tbl)"
    by (simp add: is_open_def same_window_def)
qed

lemma findOpenTrackingInPuesto_max:
  assumes "findOpenTrackingInPuesto p tbl = Some b"
    and "q \<in> set tbl" "is_open q" "rec_puesto_id q = p"
  shows "rec_fecha_inicio q \<le> rec_fecha_inicio b"
proof (rule latest_max)
  from assms(1)
  show "latest (filter (\<lambda>r. rec_puesto_id r = p \<and> rec_fecha_final r = None) tbl) = Some b"
    by (simp add: findOpenTrackingInPuesto_def)
  from assms(2-4)
  show "q \<in> set (filter (\<lambda>r. rec_puesto_id r = p \<and> rec_fecha_final r = None) tbl)"
    by (simp add: is_open_def)
qed

lemma select_open_in_other_puesto_strict:
  assumes "a \<in> set tbl" "is_open a" "same_window data a" "rec_puesto_id a \<noteq> puesto_id data"
    and "\<forall>q \<in> set tbl. is_open q \<and> same_window data q \<and> rec_puesto_id q \<noteq> puesto_id data
                        \<and> q \<noteq> a \<longrightarrow> rec_fecha_inicio q < rec_fecha_inicio a"
  shows "select_open_in_other_puesto data tbl = Some a"
  unfolding select_open_in_other_puesto_def
proof (rule latest_strict)
  from assms(1-4)
  show "a \<in> set (filter (\<lambda>r. rec_lote r = lote data \<and> rec_instancia r = instancia data
                          \<and> rec_version r = version data \<and> rec_puesto_id r \<noteq> puesto_id data
                          \<and> rec_fecha_final r = None) tbl)"
    by (simp add: is_open_def same_window_def)
  from assms(5)
  show "\<forall>x \<in> set (filter (\<lambda>r. rec_lote r = lote data \<and> rec_instancia r = instancia data
                          \<and> rec_version r = version data \<and> rec_puesto_id r \<noteq> puesto_id data
                          \<and> rec_fecha_final r = None) tbl).
          x \<noteq> a \<longrightarrow> rec_fecha_inicio x < rec_fecha_inicio a"
    by (simp add: is_open_def same_window_def)
qed

lemma findOpenTrackingInPuesto_strict:
  assumes "b \<in> set tbl" "is_open b" "rec_puesto_id b = p"
    and "\<forall>q \<in> set tbl. is_open q \<and> rec_puesto_id q = p \<and> q \<noteq> b
                        \<longrightarrow> rec_fecha_inicio q < rec_fecha_inicio b"
  shows "findOpenTrackingInPuesto p tbl = Some b"
  unfolding findOpenTrackingInPuesto_def
proof (rule latest_strict)
  from assms(1-3)
  show "b \<in> set (filter (\<lambda>r. rec_puesto_id r = p \<and> rec_fecha_final r = None) tbl)"
    by (simp add: is_open_def)
  from assms(4)
  show "\<forall>x \<in> set (filter (\<lambda>r. rec_puesto_id r = p \<and> rec_fecha_final r = None) tbl).
          x \<noteq> b \<longrightarrow> rec_fecha_inicio x < rec_fecha_inicio b"
    by (simp add: is_open_def)
qed

text \<open>
  After a successful call, no other interval of the scanned window is open at the scan's
  workstation, and whatever else is open for the window or at the workstation started no
  later than the scan.
\<close>

lemma createTracking_success_no_twin:
  assumes "createTracking now data tbl = (Inr r, tbl')"
    and "q \<in> set tbl'" "is_open q" "same_window data q" "rec_puesto_id q = puesto_id data"
  shows "q = r"
  using assms(1)
proof (rule createTracking_InrD)
  fix mid assume "tbl' = mid @ [r]"
    and "\<forall>r \<in> set mid. rec_puesto_id r = puesto_id data \<and> same_window data r \<longrightarrow> \<not> is_open r"
  with assms(2-5) show ?thesis by auto
qed

lemma createTracking_success_earlier:
  assumes "unique_ids tbl" "createTracking now data tbl = (Inr r, tbl')"
    and "q \<in> set tbl'" "is_open q" "q \<noteq> r"
    and "same_window data q \<or> rec_puesto_id q = puesto_id data"
  shows "rec_fecha_inicio q \<le> fecha_inicio data"
  using assms(2)
proof (rule createTracking_InrD)
  fix mid assume s: "steps_before_insert now data tbl = (Inr (), mid)"
    and t: "tbl' = mid @ [r]"
  from assms(3,5) t have qm: "q \<in> set mid" by simp
  from assms(1) show ?thesis
  proof (cases rule: steps_before_insert_cases[where data = data and now = now])
    case (late_chain a) with s show ?thesis by simp
  next
    case (occupied tbl1 b) with s show ?thesis by simp
  next
    case (late_rescan tbl1 b) with s show ?thesis by simp
  next
    case (free tbl1)
    with s have m: "mid = tbl1" by simp
    with qm assms(4) free(2) have np: "rec_puesto_id q \<noteq> puesto_id data"
      by (auto simp: findOpenTrackingInPuesto_None_iff)
    with assms(6) have w: "same_window data q" by simp
    from free(1) qm m assms(4) have q0: "q \<in> set tbl"
      by (auto dest: closeTrackingInOtherPuesto_open)
    from assms(1) show ?thesis
    proof (cases rule: closeTrackingInOtherPuesto_cases[where data = data and now = now])
      case none
      with q0 assms(4) w np show ?thesis by (auto simp: select_open_in_other_puesto_None_iff)
    next
      case (late a) with free(1) show ?thesis by simp
    next
      case (chain a)
      from chain(1) q0 assms(4) w np have "rec_fecha_inicio q \<le> rec_fecha_inicio a"
        by (rule select_open_in_other_puesto_max)
      with chain(2) show ?thesis by simp
    qed
  next
    case (rescan tbl1 b)
    with s have m: "mid = update_close now (rec_id b) (fecha_inicio data)
                        ''RESCANNED_SAME_WINDOW'' tbl1"
      by simp
    with qm assms(4) have q1: "q \<in> set tbl1" by (auto dest: open_update_close)
    show ?thesis
    proof (cases "rec_puesto_id q = puesto_id data")
      case True
      with rescan(2) q1 assms(4) have "rec_fecha_inicio q \<le> rec_fecha_inicio b"
        by (intro findOpenTrackingInPuesto_max[of "puesto_id data" tbl1]) auto
      with rescan(4) show ?thesis by simp
    next
      case False
      with assms(6) have w: "same_window data q" by simp
      from rescan(1) q1 assms(4) have q0: "q \<in> set tbl"
        by (auto dest: closeTrackingInOtherPuesto_open)
      from assms(1) show ?thesis
      proof (cases rule: closeTrackingInOtherPuesto_cases[where data = data and now = now])
        case none
        with q0 assms(4) w False show ?thesis
          by (auto simp: select_open_in_other_puesto_None_iff)
      next
        case (late a) with rescan(1) show ?thesis by simp
      next
        case (chain a)
        from chain(1) q0 assms(4) w False have "rec_fecha_inicio q \<le> rec_fecha_inicio a"
          by (rule select_open_in_other_puesto_max)
        with chain(2) show ?thesis by simp
      qed
    qed
  qed
qed

text \<open>The chain step of a successful call closes the interval its \<^verbatim>\<open>SELECT\<close> returns.\<close>

lemma createTracking_chain_closes:
  assumes "unique_ids tbl" "select_open_in_other_puesto data tbl = Some r"
    and "createTracking now data tbl = (Inr r2, tbl2)"
  shows "getTracking (rec_id r) tbl2
           = Some (close_row now (fecha_inicio data) ''CHAIN_TRANSITION'' r)"
  using assms(3)
proof (rule createTracking_InrD)
  fix mid assume s: "steps_before_insert now data tbl = (Inr (), mid)"
    and r2: "r2 = new_row now data mid" and t: "tbl2 = mid @ [r2]"
  from assms(2) have rt: "r \<in> set tbl" by (auto dest: select_open_in_other_puesto_SomeD)
  from assms(1) s obtain tbl1 where
    c: "closeTrackingInOtherPuesto now data tbl = (Inr (), tbl1)"
    and g: "\<forall>i. getTracking i mid = getTracking i tbl1
           \<or> (\<exists>b \<in> set tbl1. is_open b \<and> rec_id b = i)"
    by (rule steps_before_insert_InrD)
  from assms(1) have t1: "tbl1 = update_close now (rec_id r) (fecha_inicio data) ''CHAIN_TRANSITION'' tbl"
  proof (cases rule: closeTrackingInOtherPuesto_cases[where data = data and now = now])
    case none with assms(2) show ?thesis by simp
  next
    case (late a) with c show ?thesis by simp
  next
    case (chain a) with assms(2) c show ?thesis by simp
  qed
  have "\<not> (\<exists>b \<in> set tbl1. is_open b \<and> rec_id b = rec_id r)"
    unfolding t1 by (auto dest: open_update_close)
  with g have "getTracking (rec_id r) mid = getTracking (rec_id r) tbl1" by blast
  also have "\<dots> = Some (close_row now (fecha_inicio data) ''CHAIN_TRANSITION'' r)"
    unfolding t1 using assms(1) rt by (simp add: getTracking_update_close getTracking_unique)
  finally have m: "getTracking (rec_id r) mid
                     = Some (close_row now (fecha_inicio data) ''CHAIN_TRANSITION'' r)" .
  then obtain y where "y \<in> set mid" "rec_id y = rec_id r" by (auto dest: getTracking_SomeD)
  then have "rec_id r2 \<noteq> rec_id r" unfolding r2 using new_row_fresh[of y mid now data] by simp
  with m show ?thesis unfolding t by (simp add: getTracking_append_old)
qed

text \<open>
  The whole call, when step 1 passes and step 2 finds an interval of the scanned window,
  the only one open for it at the workstation.
\<close>

lemma createTracking_rescan:
  assumes "unique_ids tbl" "closeTrackingInOtherPuesto now data tbl = (Inr (), tbl1)"
    and "findOpenTrackingInPuesto (puesto_id data) tbl1 = Some r" "same_window data r"
    and "rec_fecha_inicio r \<le> fecha_inicio data"
    and "\<forall>q \<in> set tbl1. is_open q \<and> same_window data q \<and> rec_puesto_id q = puesto_id data
                         \<longrightarrow> q = r"
  shows "createTracking now data tbl
           = (Inr (new_row now data
                     (update_close now (rec_id r) (fecha_inicio data) ''RESCANNED_SAME_WINDOW'' tbl1)),
              update_close now (rec_id r) (fecha_inicio data) ''RESCANNED_SAME_WINDOW'' tbl1
                @ [new_row now data
                     (update_close now (rec_id r) (fecha_inicio data) ''RESCANNED_SAME_WINDOW'' tbl1)])"
proof -
  let ?mid = "update_close now (rec_id r) (fecha_inicio data) ''RESCANNED_SAME_WINDOW'' tbl1"
  from assms(2) have "map rec_id tbl1 = map rec_id tbl" by (rule closeTrackingInOtherPuesto_ids)
  with assms(1) have u1: "unique_ids tbl1" by (simp add: unique_ids_def)
  from assms(3) have r1: "r \<in> set tbl1" by (auto dest: findOpenTrackingInPuesto_SomeD)
  from assms(4) have w: "rec_lote r = lote data \<and> rec_instancia r = instancia data
                          \<and> rec_version r = version data"
    by (simp add: same_window_def)
  have s: "steps_before_insert now data tbl = (Inr (), ?mid)"
    using assms(2,3,5) w u1 r1 by (simp add: steps_before_insert_def closeTracking_present)
  have "\<not> (\<exists>q \<in> set ?mid. rec_puesto_id q = puesto_id data \<and> same_window data q
                \<and> rec_fecha_final q = None)"
  proof
    assume "\<exists>q \<in> set ?mid. rec_puesto_id q = puesto_id data \<and> same_window data q
                \<and> rec_fecha_final q = None"
    then obtain q where q: "q \<in> set ?mid" "is_open q" "rec_puesto_id q = puesto_id data"
        "same_window data q"
      by (auto simp: is_open_def)
    then have "q \<in> set tbl1" "rec_id q \<noteq> rec_id r" by (auto dest: open_update_close)
    with q assms(6) show False by auto
  qed
  with s show ?thesis
    by (simp add: createTracking_def createTracking_racing_def insert_tracking_def)
qed

text \<open>
  Claim C2, as amended.  In a store with unique ids, let a scan of window W at workstation
  P1 at \<open>t0\<close> succeed, and then a scan of W at another workstation P2 at \<open>t1 > t0\<close> succeed.
  If, when the second scan arrives, no other open interval of W at a workstation other
  than P2 has the start time \<open>t0\<close>, then the interval opened at P1 is stored closed, with
  \<open>end_time = t1\<close> and \<open>closure_reason = CHAIN_TRANSITION\<close> and otherwise as it was created,
  and the interval created at P2 is stored open.
\<close>

theorem chain_property:
  assumes "unique_ids tbl"
    and "createTracking now0 d1 tbl = (Inr r1, tbl1)"
    and "createTracking now1 d2 tbl1 = (Inr r2, tbl2)"
    and "lote d2 = lote d1" "instancia d2 = instancia d1" "version d2 = version d1"
    and "puesto_id d2 \<noteq> puesto_id d1"
    and "fecha_inicio d1 < fecha_inicio d2"
    and "\<forall>q \<in> set tbl1. is_open q \<and> same_window d1 q \<and> rec_puesto_id q \<noteq> puesto_id d2
                         \<and> q \<noteq> r1 \<longrightarrow> rec_fecha_inicio q \<noteq> fecha_inicio d1"
  shows "rec_puesto_id r1 = puesto_id d1 \<and> rec_fecha_inicio r1 = fecha_inicio d1
       \<and> getTracking (rec_id r1) tbl1 = Some r1 \<and> rec_fecha_final r1 = None
       \<and> getTracking (rec_id r1) tbl2
           = Some (r1\<lparr>rec_fecha_final := Some (fecha_inicio d2),
                      rec_closure_reason := Some ''CHAIN_TRANSITION'',
                      rec_updated_at := now1\<rparr>)
       \<and> getTracking (rec_id r2) tbl2 = Some r2
       \<and> rec_puesto_id r2 = puesto_id d2 \<and> rec_fecha_final r2 = None"
proof -
  from assms(2) have row1: "r1 \<in> set tbl1" "is_open r1" "rec_puesto_id r1 = puesto_id d1"
      "same_window d1 r1" "rec_fecha_inicio r1 = fecha_inicio d1"
    by (auto dest: createTracking_success_row)
  from assms(3) have row2: "is_open r2" "rec_puesto_id r2 = puesto_id d2"
    by (auto dest: createTracking_success_row)
  have u1: "unique_ids tbl1" using assms(1,2) by (rule createTracking_success_unique_ids)
  have sw: "same_window d2 q = same_window d1 q" for q
    using assms(4-6) by (simp add: same_window_def)
  have strict: "\<forall>q \<in> set tbl1. is_open q \<and> same_window d2 q \<and> rec_puesto_id q \<noteq> puesto_id d2
                    \<and> q \<noteq> r1 \<longrightarrow> rec_fecha_inicio q < rec_fecha_inicio r1"
  proof (intro ballI impI)
    fix q assume q: "q \<in> set tbl1"
      and h: "is_open q \<and> same_window d2 q \<and> rec_puesto_id q \<noteq> puesto_id d2 \<and> q \<noteq> r1"
    from h have "same_window d1 q \<or> rec_puesto_id q = puesto_id d1" by (simp add: sw)
    with assms(1,2) q h have "rec_fecha_inicio q \<le> fecha_inicio d1"
      by (intro createTracking_success_earlier[of tbl now0 d1 r1 tbl1 q]) auto
    moreover from assms(9) q h have "rec_fecha_inicio q \<noteq> fecha_inicio d1" by (simp add: sw)
    ultimately show "rec_fecha_inicio q < rec_fecha_inicio r1" using row1(5) by simp
  qed
  from row1(3) assms(7) have "rec_puesto_id r1 \<noteq> puesto_id d2" by simp
  with row1(1,2,4) have "select_open_in_other_puesto d2 tbl1 = Some r1"
    using strict by (intro select_open_in_other_puesto_strict) (simp_all add: sw)
  with u1 have "getTracking (rec_id r1) tbl2
          = Some (close_row now1 (fecha_inicio d2) ''CHAIN_TRANSITION'' r1)"
    using assms(3) by (rule createTracking_chain_closes)
  with row1 row2 createTracking_stored[OF assms(2)] createTracking_stored[OF assms(3)]
  show ?thesis by (simp add: close_row_def is_open_def)
qed

text \<open>
  Window TEST001 is open at workstation 3 since 100 and at workstation 4 since 50.  The
  scan at workstation 1 at 200 closes the later of the two; the scan at workstation 2 at
  300 then finds the intervals started at 50 and at 200 open, and closes the latter.
\<close>

theorem chain_property_witness:
  "unique_ids [interval 1 ''TEST001'' 3 100 None None, interval 2 ''TEST001'' 4 50 None None]
   \<and> createTracking 200 (scan ''TEST001'' 1 200)
        [interval 1 ''TEST001'' 3 100 None None, interval 2 ''TEST001'' 4 50 None None]
       = (Inr (interval 3 ''TEST001'' 1 200 None None),
          [(interval 1 ''TEST001'' 3 100 (Some 200) (Some ''CHAIN_TRANSITION''))
             \<lparr>rec_updated_at := 200\<rparr>,
           interval 2 ''TEST001'' 4 50 None None,
           interval 3 ''TEST001'' 1 200 None None])
   \<and> createTracking 300 (scan ''TEST001'' 2 300)
        [(interval 1 ''TEST001'' 3 100 (Some 200) (Some ''CHAIN_TRANSITION''))
             \<lparr>rec_updated_at := 200\<rparr>,
         interval 2 ''TEST001'' 4 50 None None,
         interval 3 ''TEST001'' 1 200 None None]
       = (Inr (interval 4 ''TEST001'' 2 300 None None),
          [(interval 1 ''TEST001'' 3 100 (Some 200) (Some ''CHAIN_TRANSITION''))
             \<lparr>rec_updated_at := 200\<rparr>,
           interval 2 ''TEST001'' 4 50 None None,
           (interval 3 ''TEST001'' 1 200 (Some 300) (Some ''CHAIN_TRANSITION''))
             \<lparr>rec_updated_at := 300\<rparr>,
           interval 4 ''TEST001'' 2 300 None None])
   \<and> puesto_id (scan ''TEST001'' 2 300) \<noteq> puesto_id (scan ''TEST001'' 1 200)
   \<and> fecha_inicio (scan ''TEST001'' 1 200) < fecha_inicio (scan ''TEST001'' 2 300)
   \<and> rec_fecha_inicio (interval 2 ''TEST001'' 4 50 None None)
       \<noteq> fecha_inicio (scan ''TEST001'' 1 200)
   \<and> getTracking 3
        [(interval 1 ''TEST001'' 3 100 (Some 200) (Some ''CHAIN_TRANSITION''))
             \<lparr>rec_updated_at := 200\<rparr>,
           interval 2 ''TEST001'' 4 50 None None,
           (interval 3 ''TEST001'' 1 200 (Some 300) (Some ''CHAIN_TRANSITION''))
             \<lparr>rec_updated_at := 300\<rparr>,
           interval 4 ''TEST001'' 2 300 None None]
       = Some ((interval 3 ''TEST001'' 1 200 (Some 300) (Some ''CHAIN_TRANSITION''))
             \<lparr>rec_updated_at := 300\<rparr>)"
proof -
  let ?T = "[interval 1 ''TEST001'' 3 100 None None, interval 2 ''TEST001'' 4 50 None None]"
  let ?T1 = "[(interval 1 ''TEST001'' 3 100 (Some 200) (Some ''CHAIN_TRANSITION''))
                \<lparr>rec_updated_at := 200\<rparr>,
              interval 2 ''TEST001'' 4 50 None None,
              interval 3 ''TEST001'' 1 200 None None]"
  let ?T2 = "[(interval 1 ''TEST001'' 3 100 (Some 200) (Some ''CHAIN_TRANSITION''))
                \<lparr>rec_updated_at := 200\<rparr>,
              interval 2 ''TEST001'' 4 50 None None,
              (interval 3 ''TEST001'' 1 200 (Some 300) (Some ''CHAIN_TRANSITION''))
                \<lparr>rec_updated_at := 300\<rparr>,
              interval 4 ''TEST001'' 2 300 None None]"
  have u: "unique_ids ?T" by (simp add: unique_ids_def interval_def)
  have c1: "createTracking 200 (scan ''TEST001'' 1 200) ?T
              = (Inr (interval 3 ''TEST001'' 1 200 None None), ?T1)"
    by (simp add: service_defs)
  have c2: "createTracking 300 (scan ''TEST001'' 2 300) ?T1
              = (Inr (interval 4 ''TEST001'' 2 300 None None), ?T2)"
    by (simp add: service_defs)
  have l: "lote (scan ''TEST001'' 2 300) = lote (scan ''TEST001'' 1 200)"
    and i: "instancia (scan ''TEST001'' 2 300) = instancia (scan ''TEST001'' 1 200)"
    and v: "version (scan ''TEST001'' 2 300) = version (scan ''TEST001'' 1 200)"
    and p: "puesto_id (scan ''TEST001'' 2 300) \<noteq> puesto_id (scan ''TEST001'' 1 200)"
    and t: "fecha_inicio (scan ''TEST001'' 1 200) < fecha_inicio (scan ''TEST001'' 2 300)"
    by (simp_all add: scan_def)
  have n: "\<forall>q \<in> set ?T1. is_open q \<and> same_window (scan ''TEST001'' 1 200) q
              \<and> rec_puesto_id q \<noteq> puesto_id (scan ''TEST001'' 2 300)
              \<and> q \<noteq> interval 3 ''TEST001'' 1 200 None None
              \<longrightarrow> rec_fecha_inicio q \<noteq> fecha_inicio (scan ''TEST001'' 1 200)"
    by (simp add: interval_def scan_def is_open_def)
  from chain_property[OF u c1 c2 l i v p t n] u c1 c2 p t show ?thesis
    by (simp add: interval_def scan_def)
qed

text \<open>
  Claim C2 as stated fails where start times tie.  Two racing scans at time 10 leave
  window A open at workstations 4 and 3.  A scan of A at workstation 1 at 10 succeeds and
  opens interval 3; a scan at workstation 2 at 20 succeeds too, but its chain step picks
  the interval of workstation 3, also started at 10: interval 3 at workstation 1 stays
  open.
\<close>

theorem chain_property_counterexample:
  "snd (createTracking_racing (\<lambda>t. snd (createTracking 10 (scan ''A'' 4 10) t)) 10
          (scan ''A'' 3 10) [])
     = [interval 1 ''A'' 4 10 None None, interval 2 ''A'' 3 10 None None]
   \<and> createTracking 10 (scan ''A'' 1 10)
        [interval 1 ''A'' 4 10 None None, interval 2 ''A'' 3 10 None None]
       = (Inr (interval 3 ''A'' 1 10 None None),
          [(interval 1 ''A'' 4 10 (Some 10) (Some ''CHAIN_TRANSITION''))\<lparr>rec_updated_at := 10\<rparr>,
           interval 2 ''A'' 3 10 None None,
           interval 3 ''A'' 1 10 None None])
   \<and> createTracking 20 (scan ''A'' 2 20)
        [(interval 1 ''A'' 4 10 (Some 10) (Some ''CHAIN_TRANSITION''))\<lparr>rec_updated_at := 10\<rparr>,
         interval 2 ''A'' 3 10 None None,
         interval 3 ''A'' 1 10 None None]
       = (Inr (interval 4 ''A'' 2 20 None None),
          [(interval 1 ''A'' 4 10 (Some 10) (Some ''CHAIN_TRANSITION''))\<lparr>rec_updated_at := 10\<rparr>,
           (interval 2 ''A'' 3 10 (Some 20) (Some ''CHAIN_TRANSITION''))\<lparr>rec_updated_at := 20\<rparr>,
           interval 3 ''A'' 1 10 None None,
           interval 4 ''A'' 2 20 None None])
   \<and> is_open (interval 3 ''A'' 1 10 None None)"
  by (simp add: service_defs)

text \<open>
  Claim C3, as amended.  In a store with unique ids, let a scan of window W at workstation
  P1 at \<open>t0\<close> succeed.  If, when the second scan arrives, no other open interval at P1 has
  the start time \<open>t0\<close>, then a scan of W at P1 at \<open>t1 > t0\<close> succeeds as well: the first
  interval is stored closed, with \<open>closure_reason = RESCANNED_SAME_WINDOW\<close> and
  \<open>end_time = t1\<close>, and the call returns a new interval, stored open at P1.
\<close>

theorem rescan_property:
  assumes "unique_ids tbl"
    and "createTracking now0 d1 tbl = (Inr r1, tbl1)"
    and "lote d2 = lote d1" "instancia d2 = instancia d1" "version d2 = version d1"
    and "puesto_id d2 = puesto_id d1"
    and "fecha_inicio d1 < fecha_inicio d2"
    and "\<forall>q \<in> set tbl1. is_open q \<and> rec_puesto_id q = puesto_id d1 \<and> q \<noteq> r1
                         \<longrightarrow> rec_fecha_inicio q \<noteq> fecha_inicio d1"
  shows "\<exists>r2 tbl2. createTracking now1 d2 tbl1 = (Inr r2, tbl2)
       \<and> rec_puesto_id r1 = puesto_id d1 \<and> rec_fecha_inicio r1 = fecha_inicio d1
       \<and> getTracking (rec_id r1) tbl2
           = Some (r1\<lparr>rec_fecha_final := Some (fecha_inicio d2),
                      rec_closure_reason := Some ''RESCANNED_SAME_WINDOW'',
                      rec_updated_at := now1\<rparr>)
       \<and> rec_id r2 \<noteq> rec_id r1
       \<and> getTracking (rec_id r2) tbl2 = Some r2
       \<and> rec_puesto_id r2 = puesto_id d1 \<and> rec_fecha_final r2 = None"
proof -
  from assms(2) have row1: "r1 \<in> set tbl1" "is_open r1" "rec_puesto_id r1 = puesto_id d1"
      "same_window d1 r1" "rec_fecha_inicio r1 = fecha_inicio d1"
    by (auto dest: createTracking_success_row)
  have u1: "unique_ids tbl1" using assms(1,2) by (rule createTracking_success_unique_ids)
  have sw: "same_window d2 q = same_window d1 q" for q
    using assms(3-5) by (simp add: same_window_def)
  have earlier: "rec_fecha_inicio q \<le> fecha_inicio d1"
    if "q \<in> set tbl1" "is_open q" "q \<noteq> r1" "same_window d1 q \<or> rec_puesto_id q = puesto_id d1"
    for q
    using assms(1,2) that by (rule createTracking_success_earlier)
  txt \<open>Step 1 of the second call passes and leaves the first interval alone.\<close>
  obtain tbl1' where c: "closeTrackingInOtherPuesto now1 d2 tbl1 = (Inr (), tbl1')"
  proof -
    from u1 show ?thesis
    proof (cases rule: closeTrackingInOtherPuesto_cases[where data = d2 and now = now1])
      case none from none(2) show ?thesis by (rule that)
    next
      case (chain a) from chain(3) show ?thesis by (rule that)
    next
      case (late a)
      then have a: "a \<in> set tbl1" "is_open a" "same_window d2 a"
          "rec_puesto_id a \<noteq> puesto_id d2"
        by (auto dest: select_open_in_other_puesto_SomeD)
      with row1(3) assms(6) have "a \<noteq> r1" by auto
      with a have "rec_fecha_inicio a \<le> fecha_inicio d1" by (intro earlier) (simp_all add: sw)
      with late(2) assms(7) show ?thesis by simp
    qed
  qed
  from c have ids: "map rec_id tbl1' = map rec_id tbl1" by (rule closeTrackingInOtherPuesto_ids)
  with u1 have u1': "unique_ids tbl1'" by (simp add: unique_ids_def)
  have r1': "r1 \<in> set tbl1'"
    using u1 c row1(1)
  proof (rule closeTrackingInOtherPuesto_other_ids)
    from row1(3) assms(6)
    show "\<not> (is_open r1 \<and> same_window d2 r1 \<and> rec_puesto_id r1 \<noteq> puesto_id d2)" by simp
  qed
  have open1: "q \<in> set tbl1" if "q \<in> set tbl1'" "is_open q" for q
    using c that by (rule closeTrackingInOtherPuesto_open)
  txt \<open>Step 2 finds the first interval, the latest one open at the workstation.\<close>
  have f: "findOpenTrackingInPuesto (puesto_id d2) tbl1' = Some r1"
  proof (rule findOpenTrackingInPuesto_strict)
    show "r1 \<in> set tbl1'" by (rule r1')
    show "is_open r1" by (rule row1(2))
    from row1(3) assms(6) show "rec_puesto_id r1 = puesto_id d2" by simp
    show "\<forall>q \<in> set tbl1'. is_open q \<and> rec_puesto_id q = puesto_id d2 \<and> q \<noteq> r1
                          \<longrightarrow> rec_fecha_inicio q < rec_fecha_inicio r1"
    proof (intro ballI impI)
      fix q assume q: "q \<in> set tbl1'"
        and h: "is_open q \<and> rec_puesto_id q = puesto_id d2 \<and> q \<noteq> r1"
      from q h have q1: "q \<in> set tbl1" by (auto intro: open1)
      with h assms(6) have "rec_fecha_inicio q \<le> fecha_inicio d1" by (intro earlier) simp_all
      moreover from assms(8) q1 h assms(6) have "rec_fecha_inicio q \<noteq> fecha_inicio d1" by simp
      ultimately show "rec_fecha_inicio q < rec_fecha_inicio r1" using row1(5) by simp
    qed
  qed
  have twin: "\<forall>q \<in> set tbl1'. is_open q \<and> same_window d2 q \<and> rec_puesto_id q = puesto_id d2
                            \<longrightarrow> q = r1"
  proof (intro ballI impI)
    fix q assume q: "q \<in> set tbl1'"
      and h: "is_open q \<and> same_window d2 q \<and> rec_puesto_id q = puesto_id d2"
    from q h have "q \<in> set tbl1" by (auto intro: open1)
    with assms(2) h assms(6) show "q = r1"
      by (intro createTracking_success_no_twin[of now0 d1 tbl r1 tbl1 q]) (simp_all add: sw)
  qed
  from row1(4) have w2: "same_window d2 r1" by (simp add: sw)
  from row1(5) assms(7) have le: "rec_fecha_inicio r1 \<le> fecha_inicio d2" by simp
  let ?mid = "update_close now1 (rec_id r1) (fecha_inicio d2) ''RESCANNED_SAME_WINDOW'' tbl1'"
  have c2: "createTracking now1 d2 tbl1 = (Inr (new_row now1 d2 ?mid), ?mid @ [new_row now1 d2 ?mid])"
    using u1 c f w2 le twin by (rule createTracking_rescan)
  have m: "getTracking (rec_id r1) ?mid
             = Some (close_row now1 (fecha_inicio d2) ''RESCANNED_SAME_WINDOW'' r1)"
    using u1' r1' by (simp add: getTracking_update_close getTracking_unique)
  then obtain y where "y \<in> set ?mid" "rec_id y = rec_id r1" by (auto dest: getTracking_SomeD)
  then have ne: "rec_id (new_row now1 d2 ?mid) \<noteq> rec_id r1"
    using new_row_fresh[of y ?mid now1 d2] by simp
  with m have "getTracking (rec_id r1) (?mid @ [new_row now1 d2 ?mid])
             = Some (close_row now1 (fecha_inicio d2) ''RESCANNED_SAME_WINDOW'' r1)"
    by (simp add: getTracking_append_old)
  with c2 ne row1 assms(6) createTracking_stored[OF c2] createTracking_success_row[OF c2]
  show ?thesis by (simp add: close_row_def is_open_def)
qed

text \<open>
  Workstation 1 holds two open intervals, of TEST001 since 100 and of B since 50.  The
  scan of TEST001 at 200 closes the later one; the scan at 300 then finds the intervals
  started at 50 and at 200 open at the workstation, and closes the latter.
\<close>

theorem rescan_property_witness:
  "unique_ids [interval 1 ''TEST001'' 1 100 None None, interval 2 ''B'' 1 50 None None]
   \<and> createTracking 200 (scan ''TEST001'' 1 200)
        [interval 1 ''TEST001'' 1 100 None None, interval 2 ''B'' 1 50 None None]
       = (Inr (interval 3 ''TEST001'' 1 200 None None),
          [(interval 1 ''TEST001'' 1 100 (Some 200) (Some ''RESCANNED_SAME_WINDOW''))
             \<lparr>rec_updated_at := 200\<rparr>,
           interval 2 ''B'' 1 50 None None,
           interval 3 ''TEST001'' 1 200 None None])
   \<and> puesto_id (scan ''TEST001'' 1 300) = puesto_id (scan ''TEST001'' 1 200)
   \<and> fecha_inicio (scan ''TEST001'' 1 200) < fecha_inicio (scan ''TEST001'' 1 300)
   \<and> rec_fecha_inicio (interval 2 ''B'' 1 50 None None) \<noteq> fecha_inicio (scan ''TEST001'' 1 200)
   \<and> createTracking 300 (scan ''TEST001'' 1 300)
        [(interval 1 ''TEST001'' 1 100 (Some 200) (Some ''RESCANNED_SAME_WINDOW''))
             \<lparr>rec_updated_at := 200\<rparr>,
         interval 2 ''B'' 1 50 None None,
         interval 3 ''TEST001'' 1 200 None None]
       = (Inr (interval 4 ''TEST001'' 1 300 None None),
          [(interval 1 ''TEST001'' 1 100 (Some 200) (Some ''RESCANNED_SAME_WINDOW''))
             \<lparr>rec_updated_at := 200\<rparr>,
           interval 2 ''B'' 1 50 None None,
           (interval 3 ''TEST001'' 1 200 (Some 300) (Some ''RESCANNED_SAME_WINDOW''))
             \<lparr>rec_updated_at := 300\<rparr>,
           interval 4 ''TEST001'' 1 300 None None])"
proof -
  let ?T = "[interval 1 ''TEST001'' 1 100 None None, interval 2 ''B'' 1 50 None None]"
  let ?T1 = "[(interval 1 ''TEST001'' 1 100 (Some 200) (Some ''RESCANNED_SAME_WINDOW''))
                \<lparr>rec_updated_at := 200\<rparr>,
              interval 2 ''B'' 1 50 None None,
              interval 3 ''TEST001'' 1 200 None None]"
  have u: "unique_ids ?T" by (simp add: unique_ids_def interval_def)
  have c1: "createTracking 200 (scan ''TEST001'' 1 200) ?T
              = (Inr (interval 3 ''TEST001'' 1 200 None None), ?T1)"
    by (simp add: service_defs)
  have l: "lote (scan ''TEST001'' 1 300) = lote (scan ''TEST001'' 1 200)"
    and i: "instancia (scan ''TEST001'' 1 300) = instancia (scan ''TEST001'' 1 200)"
    and v: "version (scan ''TEST001'' 1 300) = version (scan ''TEST001'' 1 200)"
    and p: "puesto_id (scan ''TEST001'' 1 300) = puesto_id (scan ''TEST001'' 1 200)"
    and t: "fecha_inicio (scan ''TEST001'' 1 200) < fecha_inicio (scan ''TEST001'' 1 300)"
    by (simp_all add: scan_def)
  have n: "\<forall>q \<in> set ?T1. is_open q \<and> rec_puesto_id q = puesto_id (scan ''TEST001'' 1 200)
              \<and> q \<noteq> interval 3 ''TEST001'' 1 200 None None
              \<longrightarrow> rec_fecha_inicio q \<noteq> fecha_inicio (scan ''TEST001'' 1 200)"
    by (simp add: interval_def scan_def is_open_def)
  have c2: "createTracking 300 (scan ''TEST001'' 1 300) ?T1
       = (Inr (interval 4 ''TEST001'' 1 300 None None),
          [(interval 1 ''TEST001'' 1 100 (Some 200) (Some ''RESCANNED_SAME_WINDOW''))
             \<lparr>rec_updated_at := 200\<rparr>,
           interval 2 ''B'' 1 50 None None,
           (interval 3 ''TEST001'' 1 200 (Some 300) (Some ''RESCANNED_SAME_WINDOW''))
             \<lparr>rec_updated_at := 300\<rparr>,
           interval 4 ''TEST001'' 1 300 None None])"
    by (simp add: service_defs)
  from rescan_property[OF u c1 l i v p t n, of 300] u c1 p t c2 show ?thesis
    by (simp add: interval_def scan_def)
qed

text \<open>
  Claim C3 as stated fails where start times tie.  Two racing scans at time 10 leave
  windows A and B both open at workstation 1.  A rescan of A at 10 succeeds and opens
  interval 3; the next scan of A at 20 finds the interval of B, also started at 10, and
  is rejected: interval 3 stays open and no new interval is returned.
\<close>

theorem rescan_property_counterexample:
  "snd (createTracking_racing (\<lambda>t. snd (createTracking 10 (scan ''A'' 1 10) t)) 10
          (scan ''B'' 1 10) [])
     = [interval 1 ''A'' 1 10 None None, interval 2 ''B'' 1 10 None None]
   \<and> createTracking 10 (scan ''A'' 1 10)
        [interval 1 ''A'' 1 10 None None, interval 2 ''B'' 1 10 None None]
       = (Inr (interval 3 ''A'' 1 10 None None),
          [(interval 1 ''A'' 1 10 (Some 10) (Some ''RESCANNED_SAME_WINDOW''))\<lparr>rec_updated_at := 10\<rparr>,
           interval 2 ''B'' 1 10 None None,
           interval 3 ''A'' 1 10 None None])
   \<and> createTracking 20 (scan ''A'' 1 20)
        [(interval 1 ''A'' 1 10 (Some 10) (Some ''RESCANNED_SAME_WINDOW''))\<lparr>rec_updated_at := 10\<rparr>,
         interval 2 ''B'' 1 10 None None,
         interval 3 ''A'' 1 10 None None]
       = (Inl (Error (OpenTrackingExists 1 ''B'' 1 1 10)),
          [(interval 1 ''A'' 1 10 (Some 10) (Some ''RESCANNED_SAME_WINDOW''))\<lparr>rec_updated_at := 10\<rparr>,
           interval 2 ''B'' 1 10 None None,
           interval 3 ''A'' 1 10 None None])
   \<and> is_open (interval 3 ''A'' 1 10 None None)"
  by (simp add: service_defs)

end
